theory Spec2Isabelle
  imports
    Complex_Main
    "HOL-Library.Word"
    "HOL-Library.Multiset"
    "HOL-Library.Char_ord"
    "HOL-Library.List_Lexorder"
    "HOL-Library.Product_Lexorder"
begin

section \<open>Data model of package output\<close>

text \<open>
  \<^verbatim>\<open>decimal.Decimal\<close> (shopspring) is an arbitrary-precision decimal number; its \<^verbatim>\<open>Add\<close>
  is exact. A value is modelled by the rational number it denotes, \<^verbatim>\<open>decimal.Zero\<close> by 0.
  A \<^verbatim>\<open>*decimal.Decimal\<close> is an option: \<open>None\<close> is the nil pointer.

  Go's \<^verbatim>\<open>int\<close> is modelled as a 64-bit word (the size it has on the 64-bit targets the
  tool is built for): \<open>+\<close> wraps around, \<open>sint\<close> reads the signed value.
  A \<^verbatim>\<open>map[string]T\<close> is a partial function from strings; a \<^verbatim>\<open>*map[string]int\<close> is an option
  of one.
\<close>

type_synonym decimal = rat

type_synonym go_int = "64 word"

type_synonym time_Time = int

definition decimal_Zero :: decimal where
  "decimal_Zero = 0"

definition decimal_Add :: "decimal \<Rightarrow> decimal \<Rightarrow> decimal" where
  "decimal_Add d d2 = d + d2"

text \<open>Reading a Go map at a key: the zero value of the element type when the key is absent.\<close>

definition index_string :: "(string \<rightharpoonup> string) \<Rightarrow> string \<Rightarrow> string" where
  "index_string m k = (case m k of None \<Rightarrow> [] | Some v \<Rightarrow> v)"

definition index_int :: "(string \<rightharpoonup> go_int) \<Rightarrow> string \<Rightarrow> go_int" where
  "index_int m k = (case m k of None \<Rightarrow> 0 | Some v \<Rightarrow> v)"

record CostComponent =
  cc_Name :: string
  cc_Unit :: string
  cc_HourlyQuantity :: "decimal option"
  cc_MonthlyQuantity :: "decimal option"
  cc_Price :: decimal
  cc_HourlyCost :: "decimal option"
  cc_MonthlyCost :: "decimal option"

datatype Resource = Resource
  (Name: string)
  (Tags: "string \<rightharpoonup> string")
  (Metadata: "string \<rightharpoonup> string")
  (HourlyCost: "decimal option")
  (MonthlyCost: "decimal option")
  (CostComponents: "CostComponent list")
  (SubResources: "Resource list")

record Breakdown =
  Resources :: "Resource list"
  TotalHourlyCost :: "decimal option"
  TotalMonthlyCost :: "decimal option"

record Summary =
  SupportedResourceCounts :: "(string \<rightharpoonup> go_int) option"
  UnsupportedResourceCounts :: "(string \<rightharpoonup> go_int) option"
  TotalSupportedResources :: "go_int option"
  TotalUnsupportedResources :: "go_int option"
  TotalNoPriceResources :: "go_int option"
  TotalResources :: "go_int option"

record SummaryOptions =
  IncludeUnsupportedProviders :: bool
  OnlyFields :: "string list"

subsection \<open>The input types of package schema\<close>

text \<open>
  Package schema is not among the sources; the fields below are the ones package output
  reads, and \<^verbatim>\<open>schema.ProjectMetadata\<close> is opaque to it. The slices of resources and of
  projects hold pointers that are not nil (the code dereferences each without a test), so
  a list of resources is a list of values; a \<^verbatim>\<open>*Summary\<close> or a \<^verbatim>\<open>*Breakdown\<close>, which the code
  does test, is an option.
\<close>

text \<open>
  Modelled from the spec: the methods \<^verbatim>\<open>UnitWithMultiplier\<close>, \<^verbatim>\<open>UnitMultiplierHourlyQuantity\<close>,
  \<^verbatim>\<open>UnitMultiplierMonthlyQuantity\<close> and \<^verbatim>\<open>UnitMultiplierPrice\<close> of a schema cost component
  are missing. Section 4.1 has the normalizer read unit labels and quantities as display
  values that are already resolved, so each method is a field holding its result.
\<close>

record schema_CostComponent =
  sc_Name :: string
  sc_UnitWithMultiplier :: string
  sc_UnitMultiplierHourlyQuantity :: "decimal option"
  sc_UnitMultiplierMonthlyQuantity :: "decimal option"
  sc_UnitMultiplierPrice :: decimal
  sc_HourlyCost :: "decimal option"
  sc_MonthlyCost :: "decimal option"

datatype schema_Resource = schema_Resource
  (s_Name: string)
  (s_ResourceType: string)
  (s_Tags: "string \<rightharpoonup> string")
  (s_IsSkipped: bool)
  (s_NoPrice: bool)
  (s_HourlyCost: "decimal option")
  (s_MonthlyCost: "decimal option")
  (s_CostComponents: "schema_CostComponent list")
  (s_SubResources: "schema_Resource list")

typedecl schema_ProjectMetadata

record schema_Project =
  p_Name :: string
  p_Metadata :: "schema_ProjectMetadata option"
  p_HasDiff :: bool
  p_PastResources :: "schema_Resource list"
  p_Resources :: "schema_Resource list"
  p_Diff :: "schema_Resource list"

record ProjectResult =
  ProjectName :: string
  ProjectMetadata :: "schema_ProjectMetadata option"
  PastBreakdown :: "Breakdown option"
  pr_Breakdown :: "Breakdown option"
  Diff :: "Breakdown option"
  pr_Summary :: "Summary option"
  fullSummary :: "Summary option"

record Root =
  Version :: string
  root_Resources :: "Resource list"
  root_TotalHourlyCost :: "decimal option"
  root_TotalMonthlyCost :: "decimal option"
  RunID :: string
  ProjectResults :: "ProjectResult list"
  TimeGenerated :: time_Time

section \<open>Cost aggregation\<close>

definition decimalPtr :: "decimal \<Rightarrow> decimal option" where
  "decimalPtr d = Some d"

text \<open>
  The block that occurs twice in \<^verbatim>\<open>calculateTotalCosts\<close> and twice in \<^verbatim>\<open>ToOutputFormat\<close>:
  \<^verbatim>\<open>if cost != nil { if total == nil { total = decimalPtr(decimal.Zero) };
       total = decimalPtr(total.Add(*cost)) }\<close>
\<close>

definition addCost :: "decimal option \<Rightarrow> decimal option \<Rightarrow> decimal option" where
  "addCost running cost =
     (case cost of
        None \<Rightarrow> running
      | Some c \<Rightarrow>
          (case (case running of None \<Rightarrow> decimalPtr decimal_Zero | Some t \<Rightarrow> Some t) of
             None \<Rightarrow> None
           | Some t \<Rightarrow> decimalPtr (decimal_Add t c)))"

fun calculateTotalCosts_loop ::
  "Resource list \<Rightarrow> decimal option \<times> decimal option \<Rightarrow> decimal option \<times> decimal option" where
  "calculateTotalCosts_loop [] (totalHourlyCost, totalMonthlyCost) =
     (totalHourlyCost, totalMonthlyCost)"
| "calculateTotalCosts_loop (r # resources) (totalHourlyCost, totalMonthlyCost) =
     calculateTotalCosts_loop resources
       (addCost totalHourlyCost (HourlyCost r), addCost totalMonthlyCost (MonthlyCost r))"

text \<open>Returns the pair (totalHourlyCost, totalMonthlyCost), in this order.\<close>

definition calculateTotalCosts :: "Resource list \<Rightarrow> decimal option \<times> decimal option" where
  "calculateTotalCosts resources =
     calculateTotalCosts_loop resources (decimalPtr decimal_Zero, decimalPtr decimal_Zero)"

section \<open>Sorting\<close>

text \<open>
  \<^verbatim>\<open>sort.Slice\<close> belongs to Go's standard library. Its algorithm differs between Go
  releases; what is documented is its contract: given a \<^verbatim>\<open>less\<close> that is a transitive
  ordering (both \<^verbatim>\<open>less\<close> and its negation are transitive), the slice is permuted so that
  no element is \<^verbatim>\<open>less\<close> than one before it, and the sort is not guaranteed to be stable.
  The sorting function is therefore a parameter \<open>srt\<close> of the model, and
  \<open>sort_Slice_contract\<close> is what is known of it.
\<close>

definition transitive_ordering :: "('a \<Rightarrow> 'a \<Rightarrow> bool) \<Rightarrow> bool" where
  "transitive_ordering lt \<longleftrightarrow>
     (\<forall>x. \<not> lt x x) \<and>
     (\<forall>x y z. lt x y \<and> lt y z \<longrightarrow> lt x z) \<and>
     (\<forall>x y z. \<not> lt x y \<and> \<not> lt y z \<longrightarrow> \<not> lt x z)"

definition sort_Slice_contract :: "(('a \<Rightarrow> 'a \<Rightarrow> bool) \<Rightarrow> 'a list \<Rightarrow> 'a list) \<Rightarrow> bool" where
  "sort_Slice_contract srt \<longleftrightarrow>
     (\<forall>lt xs. transitive_ordering lt \<longrightarrow>
        mset (srt lt xs) = mset xs \<and> sorted_wrt (\<lambda>a b. \<not> lt b a) (srt lt xs))"

text \<open>The comparison closure that \<^verbatim>\<open>sortResources\<close> hands to \<^verbatim>\<open>sort.Slice\<close>.\<close>

definition sortResources_less :: "string \<Rightarrow> Resource \<Rightarrow> Resource \<Rightarrow> bool" where
  "sortResources_less groupKey ri rj =
     (if groupKey = [] then Name ri < Name rj
      else if index_string (Metadata ri) groupKey = index_string (Metadata rj) groupKey
        then Name ri < Name rj
      else index_string (Metadata ri) groupKey < index_string (Metadata rj) groupKey)"

type_synonym sorter = "(Resource \<Rightarrow> Resource \<Rightarrow> bool) \<Rightarrow> Resource list \<Rightarrow> Resource list"

definition sortResources :: "sorter \<Rightarrow> Resource list \<Rightarrow> string \<Rightarrow> Resource list" where
  "sortResources srt resources groupKey = srt (sortResources_less groupKey) resources"

text \<open>
  The pair the specification orders resources by: the value of the grouping key in the
  resource's metadata (nothing when the grouping key is empty) and the resource's name.
  Pairs are compared lexicographically, strings bytewise.
\<close>

definition groupAndName :: "string \<Rightarrow> Resource \<Rightarrow> string \<times> string" where
  "groupAndName groupKey r =
     (if groupKey = [] then [] else index_string (Metadata r) groupKey, Name r)"

section \<open>Normalizing resources and building a breakdown\<close>

definition outputCostComponent :: "schema_CostComponent \<Rightarrow> CostComponent" where
  "outputCostComponent c =
     \<lparr> cc_Name = sc_Name c,
       cc_Unit = sc_UnitWithMultiplier c,
       cc_HourlyQuantity = sc_UnitMultiplierHourlyQuantity c,
       cc_MonthlyQuantity = sc_UnitMultiplierMonthlyQuantity c,
       cc_Price = sc_UnitMultiplierPrice c,
       cc_HourlyCost = sc_HourlyCost c,
       cc_MonthlyCost = sc_MonthlyCost c \<rparr>"

fun outputResource :: "schema_Resource \<Rightarrow> Resource" where
  "outputResource (schema_Resource name rtype tags isSkipped noPrice hourly monthly comps subs) =
     Resource name tags Map.empty hourly monthly
       (map outputCostComponent comps) (map outputResource subs)"

text \<open>
  The source binds the first result of \<^verbatim>\<open>calculateTotalCosts\<close> (the hourly total) to a
  variable called \<^verbatim>\<open>totalMonthlyCost\<close> and the second to \<^verbatim>\<open>totalHourlyCost\<close>, then stores
  \<^verbatim>\<open>totalMonthlyCost\<close> in field \<^verbatim>\<open>TotalHourlyCost\<close> and \<^verbatim>\<open>totalHourlyCost\<close> in
  \<^verbatim>\<open>TotalMonthlyCost\<close>. The model keeps both crossings.
\<close>

definition outputBreakdown :: "sorter \<Rightarrow> schema_Resource list \<Rightarrow> Breakdown" where
  "outputBreakdown srt resources =
     (let arr = map outputResource (filter (\<lambda>r. \<not> s_IsSkipped r) resources);
          arr = sortResources srt arr [];
          (totalMonthlyCost, totalHourlyCost) = calculateTotalCosts arr
      in \<lparr> Resources = arr,
           TotalHourlyCost = totalMonthlyCost,
           TotalMonthlyCost = totalHourlyCost \<rparr>)"


text \<open>
  One instance of the contract is insertion sort as the standard library writes it
  (\<^verbatim>\<open>insertionSort_func\<close>): element \<open>i\<close> is swapped leftwards while it is \<^verbatim>\<open>less\<close> than its left
  neighbour. Every Go release runs exactly this on a slice of at most six elements.
  \<open>insertionSort_insert\<close> takes the sorted prefix in reverse, nearest neighbour first.
\<close>

fun insertionSort_insert :: "('a \<Rightarrow> 'a \<Rightarrow> bool) \<Rightarrow> 'a \<Rightarrow> 'a list \<Rightarrow> 'a list" where
  "insertionSort_insert lt x [] = [x]"
| "insertionSort_insert lt x (y # ys) =
     (if lt x y then y # insertionSort_insert lt x ys else x # y # ys)"

definition insertionSort :: "('a \<Rightarrow> 'a \<Rightarrow> bool) \<Rightarrow> 'a list \<Rightarrow> 'a list" where
  "insertionSort lt xs = rev (fold (insertionSort_insert lt) xs [])"

section \<open>Building a summary\<close>

primrec contains :: "string list \<Rightarrow> string \<Rightarrow> bool" where
  "contains [] e = False"
| "contains (a # arr) e = (if a = e then True else contains arr e)"

record BuildSummary_vars =
  supportedResourceCounts :: "string \<rightharpoonup> go_int"
  unsupportedResourceCounts :: "string \<rightharpoonup> go_int"
  totalSupportedResources :: go_int
  totalUnsupportedResources :: go_int
  totalNoPriceResources :: go_int

text \<open>
  \<^verbatim>\<open>if _, ok := counts[t]; !ok { counts[t] = 0 }; counts[t]++\<close>
\<close>

definition countType :: "(string \<rightharpoonup> go_int) \<Rightarrow> string \<Rightarrow> (string \<rightharpoonup> go_int)" where
  "countType counts t =
     (let counts = (if counts t = None then counts(t \<mapsto> 0) else counts)
      in counts(t \<mapsto> index_int counts t + 1))"

text \<open>
  The body of the loop of \<^verbatim>\<open>BuildSummary\<close>. \<^verbatim>\<open>terraform.HasSupportedProvider\<close> is not among
  the sources at hand and is a parameter.
\<close>

definition BuildSummary_body ::
  "(string \<Rightarrow> bool) \<Rightarrow> SummaryOptions \<Rightarrow> schema_Resource \<Rightarrow> BuildSummary_vars \<Rightarrow> BuildSummary_vars"
  where
  "BuildSummary_body hasSupportedProvider opts r v =
     (if \<not> IncludeUnsupportedProviders opts \<and> \<not> hasSupportedProvider (s_ResourceType r) then v
      else if s_NoPrice r then
        v\<lparr>totalNoPriceResources := totalNoPriceResources v + 1\<rparr>
      else if s_IsSkipped r then
        v\<lparr>totalUnsupportedResources := totalUnsupportedResources v + 1,
          unsupportedResourceCounts := countType (unsupportedResourceCounts v) (s_ResourceType r)\<rparr>
      else
        v\<lparr>totalSupportedResources := totalSupportedResources v + 1,
          supportedResourceCounts := countType (supportedResourceCounts v) (s_ResourceType r)\<rparr>)"

definition BuildSummary_loop ::
  "(string \<Rightarrow> bool) \<Rightarrow> SummaryOptions \<Rightarrow> schema_Resource list \<Rightarrow> BuildSummary_vars" where
  "BuildSummary_loop hasSupportedProvider opts resources =
     fold (BuildSummary_body hasSupportedProvider opts) resources
       \<lparr> supportedResourceCounts = Map.empty,
         unsupportedResourceCounts = Map.empty,
         totalSupportedResources = 0,
         totalUnsupportedResources = 0,
         totalNoPriceResources = 0 \<rparr>"

definition BuildSummary ::
  "(string \<Rightarrow> bool) \<Rightarrow> schema_Resource list \<Rightarrow> SummaryOptions \<Rightarrow> Summary" where
  "BuildSummary hasSupportedProvider resources opts =
     (let v = BuildSummary_loop hasSupportedProvider opts resources;
          totalResources = (of_nat (length resources) :: go_int);
          sel = (\<lambda>name. length (OnlyFields opts) = 0 \<or> contains (OnlyFields opts) name)
      in \<lparr> SupportedResourceCounts =
             (if sel ''SupportedResourceCounts'' then Some (supportedResourceCounts v) else None),
           UnsupportedResourceCounts =
             (if sel ''UnsupportedResourceCounts'' then Some (unsupportedResourceCounts v) else None),
           TotalSupportedResources =
             (if sel ''TotalSupportedResources'' then Some (totalSupportedResources v) else None),
           TotalUnsupportedResources =
             (if sel ''TotalUnsupportedResources'' then Some (totalUnsupportedResources v) else None),
           TotalNoPriceResources =
             (if sel ''TotalNoPriceResources'' then Some (totalNoPriceResources v) else None),
           TotalResources =
             (if sel ''Total'' then Some totalResources else None) \<rparr>)"

section \<open>Merging summaries\<close>

text \<open>
  The two \<^verbatim>\<open>range\<close> loops of \<^verbatim>\<open>mergeCounts\<close> visit every key of a map once and touch only
  that key of \<^verbatim>\<open>res\<close>, so each loop is written key by key: \<^verbatim>\<open>res[k] = v\<close> for the keys of
  \<^verbatim>\<open>*c1\<close>, \<^verbatim>\<open>res[k] += v\<close> for the keys of \<^verbatim>\<open>*c2\<close>.
\<close>

definition mergeCounts ::
  "(string \<rightharpoonup> go_int) option \<Rightarrow> (string \<rightharpoonup> go_int) option \<Rightarrow> (string \<rightharpoonup> go_int) option" where
  "mergeCounts c1 c2 =
     (case (c1, c2) of
        (None, None) \<Rightarrow> None
      | _ \<Rightarrow>
         (let res = Map.empty;
              res = (case c1 of None \<Rightarrow> res
                     | Some m1 \<Rightarrow> (\<lambda>k. case m1 k of None \<Rightarrow> res k | Some v \<Rightarrow> Some v));
              res = (case c2 of None \<Rightarrow> res
                     | Some m2 \<Rightarrow> (\<lambda>k. case m2 k of None \<Rightarrow> res k
                                       | Some v \<Rightarrow> Some (index_int res k + v)))
          in Some res))"

definition addIntPtrs :: "go_int option \<Rightarrow> go_int option \<Rightarrow> go_int option" where
  "addIntPtrs i1 i2 =
     (case (i1, i2) of
        (None, None) \<Rightarrow> None
      | _ \<Rightarrow>
         (let val1 = (case i1 of None \<Rightarrow> 0 | Some x \<Rightarrow> x);
              val2 = (case i2 of None \<Rightarrow> 0 | Some x \<Rightarrow> x)
          in Some (val1 + val2)))"

definition MergeSummaries_body :: "Summary option \<Rightarrow> Summary \<Rightarrow> Summary" where
  "MergeSummaries_body s merged =
     (case s of
        None \<Rightarrow> merged
      | Some s \<Rightarrow>
          merged\<lparr>
            SupportedResourceCounts :=
              mergeCounts (SupportedResourceCounts merged) (SupportedResourceCounts s),
            UnsupportedResourceCounts :=
              mergeCounts (UnsupportedResourceCounts merged) (UnsupportedResourceCounts s),
            TotalSupportedResources :=
              addIntPtrs (TotalSupportedResources merged) (TotalSupportedResources s),
            TotalUnsupportedResources :=
              addIntPtrs (TotalUnsupportedResources merged) (TotalUnsupportedResources s),
            TotalNoPriceResources :=
              addIntPtrs (TotalNoPriceResources merged) (TotalNoPriceResources s),
            TotalResources :=
              addIntPtrs (TotalResources merged) (TotalResources s)\<rparr>)"

definition MergeSummaries :: "Summary option list \<Rightarrow> Summary" where
  "MergeSummaries summaries =
     fold MergeSummaries_body summaries
       \<lparr> SupportedResourceCounts = None,
         UnsupportedResourceCounts = None,
         TotalSupportedResources = None,
         TotalUnsupportedResources = None,
         TotalNoPriceResources = None,
         TotalResources = None \<rparr>"

section \<open>Assembling the report\<close>

definition outputVersion :: string where
  "outputVersion = ''0.1''"

record ToOutputFormat_vars =
  totalMonthlyCost :: "decimal option"
  totalHourlyCost :: "decimal option"
  outProjectResults :: "ProjectResult list"
  outResources :: "Resource list"

text \<open>
  \<^verbatim>\<open>if breakdown != nil && breakdown.Total != nil { ... }\<close>, the guard around the block
  \<open>addCost\<close>.
\<close>

definition addBreakdownTotal ::
  "decimal option \<Rightarrow> Breakdown option \<Rightarrow> (Breakdown \<Rightarrow> decimal option) \<Rightarrow> decimal option" where
  "addBreakdownTotal running breakdown field =
     (case breakdown of None \<Rightarrow> running | Some b \<Rightarrow> addCost running (field b))"

definition ToOutputFormat_body ::
  "sorter \<Rightarrow> (string \<Rightarrow> bool) \<Rightarrow> schema_Project \<Rightarrow> ToOutputFormat_vars \<Rightarrow> ToOutputFormat_vars"
  where
  "ToOutputFormat_body srt hasSupportedProvider project v =
     (let breakdown = Some (outputBreakdown srt (p_Resources project));
          pastBreakdown =
            (if p_HasDiff project then Some (outputBreakdown srt (p_PastResources project))
             else None);
          diff =
            (if p_HasDiff project then Some (outputBreakdown srt (p_Diff project)) else None);
          summary = BuildSummary hasSupportedProvider (p_Resources project)
            \<lparr> IncludeUnsupportedProviders = False,
              OnlyFields = [''UnsupportedResourceCounts''] \<rparr>;
          full = BuildSummary hasSupportedProvider (p_Resources project)
            \<lparr> IncludeUnsupportedProviders = True, OnlyFields = [] \<rparr>
      in \<lparr> totalMonthlyCost = addBreakdownTotal (totalMonthlyCost v) breakdown TotalMonthlyCost,
           totalHourlyCost = addBreakdownTotal (totalHourlyCost v) breakdown TotalHourlyCost,
           outProjectResults = outProjectResults v @
             [\<lparr> ProjectName = p_Name project,
                ProjectMetadata = p_Metadata project,
                PastBreakdown = pastBreakdown,
                pr_Breakdown = breakdown,
                Diff = diff,
                pr_Summary = Some summary,
                fullSummary = Some full \<rparr>],
           outResources =
             (case breakdown of None \<Rightarrow> outResources v
              | Some b \<Rightarrow> outResources v @ Resources b) \<rparr>)"

text \<open>\<open>now\<close> is what \<^verbatim>\<open>time.Now()\<close> returns; the zero value of \<^verbatim>\<open>RunID\<close> is the empty string.\<close>

definition ToOutputFormat ::
  "sorter \<Rightarrow> (string \<Rightarrow> bool) \<Rightarrow> time_Time \<Rightarrow> schema_Project list \<Rightarrow> Root" where
  "ToOutputFormat srt hasSupportedProvider now projects =
     (let v = fold (ToOutputFormat_body srt hasSupportedProvider) projects
                \<lparr> totalMonthlyCost = None, totalHourlyCost = None,
                  outProjectResults = [], outResources = [] \<rparr>
      in \<lparr> Version = outputVersion,
           root_Resources = sortResources srt (outResources v) [],
           root_TotalHourlyCost = totalHourlyCost v,
           root_TotalMonthlyCost = totalMonthlyCost v,
           RunID = [],
           ProjectResults = outProjectResults v,
           TimeGenerated = now \<rparr>)"

section \<open>The message about unsupported resource types\<close>

definition MergedSummary :: "Root \<Rightarrow> Summary" where
  "MergedSummary r = MergeSummaries (map pr_Summary (ProjectResults r))"

definition MergedFullSummary :: "Root \<Rightarrow> Summary" where
  "MergedFullSummary r = MergeSummaries (map fullSummary (ProjectResults r))"

text \<open>The verb \<^verbatim>\<open>%d\<close> of \<^verbatim>\<open>fmt.Sprintf\<close>: a signed integer in base 10.\<close>

fun digits :: "nat \<Rightarrow> string" where
  "digits n =
     (if n < 10 then [''0123456789'' ! n]
      else digits (n div 10) @ [''0123456789'' ! (n mod 10)])"

declare digits.simps [simp del]

definition fmt_d :: "int \<Rightarrow> string" where
  "fmt_d i = (if i < 0 then CHR ''-'' # digits (nat (- i)) else digits (nat i))"

text \<open>\<^verbatim>\<open>len\<close> of a map, as a Go int.\<close>

definition len_map :: "(string \<rightharpoonup> go_int) \<Rightarrow> go_int" where
  "len_map m = of_nat (card (dom m))"

text \<open>
  The order in which \<^verbatim>\<open>range\<close> visits the keys of a map is chosen by the Go runtime; the
  list \<open>visited\<close> is that order. The runtime visits every key once, so the lists the program
  can meet are those with \<open>distinct visited\<close> and \<open>set visited = dom counts\<close>.
\<close>

definition unsupportedResourcesMessage :: "Root \<Rightarrow> bool \<Rightarrow> string list \<Rightarrow> string" where
  "unsupportedResourcesMessage r showSkipped visited =
     (let summary = MergedSummary r in
      case UnsupportedResourceCounts summary of
        None \<Rightarrow> []
      | Some counts \<Rightarrow>
          if len_map counts = 0 then []
          else
            (let unsupportedTypeCount = len_map counts;
                 unsupportedMsg =
                   (if unsupportedTypeCount = 1
                    then ''resource type wasn't estimated as it's not supported yet''
                    else ''resource types weren't estimated as they're not supported yet'');
                 showSkippedMsg =
                   (if showSkipped then [] else '', rerun with --show-skipped to see'');
                 msg = fmt_d (sint unsupportedTypeCount) @ '' '' @ unsupportedMsg
                   @ showSkippedMsg @ ''.'' @ [CHR 0x0A]
                   @ ''Please watch/star https://github.com/infracost/infracost as new resources are added regularly.''
             in if showSkipped
                then fold (\<lambda>t msg. msg @ [CHR 0x0A] @ fmt_d (sint (index_int counts t))
                                     @ '' x '' @ t) visited msg
                else msg))"

section \<open>The buckets of the summary, as the specification describes them\<close>

text \<open>
  A resource passes the provider filter when unsupported providers are included or its
  provider is supported. \<open>spec_countByType P resources\<close> maps a resource type to the number
  of resources of that type that satisfy \<open>P\<close>, and has no entry for a type without any.
\<close>

definition passesProviderFilter ::
  "(string \<Rightarrow> bool) \<Rightarrow> SummaryOptions \<Rightarrow> schema_Resource \<Rightarrow> bool" where
  "passesProviderFilter hasSupportedProvider opts r \<longleftrightarrow>
     IncludeUnsupportedProviders opts \<or> hasSupportedProvider (s_ResourceType r)"

definition spec_countByType ::
  "(schema_Resource \<Rightarrow> bool) \<Rightarrow> schema_Resource list \<Rightarrow> (string \<rightharpoonup> go_int)" where
  "spec_countByType P resources t =
     (let n = length (filter (\<lambda>r. P r \<and> s_ResourceType r = t) resources)
      in if n = 0 then None else Some (of_nat n))"

section \<open>Merging, as the specification describes it\<close>

text \<open>
  \<open>present\<close> keeps the values of a list of optional values that are not nil.
  A merged scalar is nil when no value is present and the sum of the present values
  otherwise. A merged map is nil when no map is present; otherwise its entry at a key is
  the merged scalar of the present maps' entries at that key, so a key missing from a map
  adds nothing for that map. \<open>emptySummary\<close> is the summary with every field nil.
\<close>

primrec present :: "'a option list \<Rightarrow> 'a list" where
  "present [] = []"
| "present (v # vs) = (case v of None \<Rightarrow> present vs | Some x \<Rightarrow> x # present vs)"

definition spec_sumPresent :: "go_int list \<Rightarrow> go_int option" where
  "spec_sumPresent vs = (if vs = [] then None else Some (sum_list vs))"

definition spec_mergeMaps :: "(string \<rightharpoonup> go_int) list \<Rightarrow> (string \<rightharpoonup> go_int) option" where
  "spec_mergeMaps ms =
     (if ms = [] then None
      else Some (\<lambda>k. spec_sumPresent (present (map (\<lambda>m. m k) ms))))"

definition emptySummary :: Summary where
  "emptySummary =
     \<lparr> SupportedResourceCounts = None, UnsupportedResourceCounts = None,
       TotalSupportedResources = None, TotalUnsupportedResources = None,
       TotalNoPriceResources = None, TotalResources = None \<rparr>"

section \<open>Example inputs\<close>

text \<open>A priced output resource with a name, a value for the metadata key \<open>team\<close> and an hourly cost.\<close>

definition example_Resource :: "string \<Rightarrow> string \<Rightarrow> decimal \<Rightarrow> Resource" where
  "example_Resource name team cost =
     Resource name Map.empty [''team'' \<mapsto> team] (Some cost) None [] []"

text \<open>
  A schema resource without tags, cost components or sub-resources; a project without a
  diff; and a provider test in the manner of \<^verbatim>\<open>terraform.HasSupportedProvider\<close>, by the
  prefix of the resource type.
\<close>

definition example_schema_Resource ::
  "string \<Rightarrow> string \<Rightarrow> bool \<Rightarrow> bool \<Rightarrow> decimal option \<Rightarrow> decimal option \<Rightarrow> schema_Resource"
  where
  "example_schema_Resource name rtype isSkipped noPrice hourly monthly =
     schema_Resource name rtype Map.empty isSkipped noPrice hourly monthly [] []"

definition example_Project :: "string \<Rightarrow> schema_Resource list \<Rightarrow> schema_Project" where
  "example_Project name resources =
     \<lparr> p_Name = name, p_Metadata = None, p_HasDiff = False, p_PastResources = [],
       p_Resources = resources, p_Diff = [] \<rparr>"

definition example_HasSupportedProvider :: "string \<Rightarrow> bool" where
  "example_HasSupportedProvider rtype \<longleftrightarrow>
     take 4 rtype = ''aws_'' \<or> take 7 rtype = ''google_'' \<or> take 8 rtype = ''azurerm_''"

text \<open>
  The resource list of the scenario in the specification: two priced instances and one
  skipped resource of a type without a supported provider.
\<close>

definition example_resources :: "schema_Resource list" where
  "example_resources =
     [example_schema_Resource ''b'' ''aws_instance'' False False (Some 1) None,
      example_schema_Resource ''a'' ''aws_instance'' False False (Some 2) None,
      example_schema_Resource ''c'' ''unknown_type'' True False None None]"

text \<open>Three skipped resources of two resource types with supported providers.\<close>

definition example_skipped_resources :: "schema_Resource list" where
  "example_skipped_resources =
     [example_schema_Resource ''x'' ''aws_new_thing'' True False None None,
      example_schema_Resource ''y'' ''aws_new_thing'' True False None None,
      example_schema_Resource ''z'' ''google_new_thing'' True False None None]"

text \<open>Two summaries with fields left nil, as a field selection leaves them.\<close>

definition example_Summary_a :: Summary where
  "example_Summary_a =
     \<lparr> SupportedResourceCounts = Some [''aws_instance'' \<mapsto> 2],
       UnsupportedResourceCounts = None,
       TotalSupportedResources = Some 2, TotalUnsupportedResources = None,
       TotalNoPriceResources = None, TotalResources = Some 3 \<rparr>"

definition example_Summary_b :: Summary where
  "example_Summary_b =
     \<lparr> SupportedResourceCounts =
         Some [''aws_instance'' \<mapsto> 1, ''google_compute_instance'' \<mapsto> 1],
       UnsupportedResourceCounts = None,
       TotalSupportedResources = Some 2, TotalUnsupportedResources = None,
       TotalNoPriceResources = Some 0, TotalResources = None \<rparr>"

section \<open>Properties of the cost aggregator\<close>

lemma addCost_Some:
  "addCost (Some t) cost = Some (t + (case cost of None \<Rightarrow> 0 | Some c \<Rightarrow> c))"
  by (simp add: addCost_def decimalPtr_def decimal_Add_def split: option.split)

lemma calculateTotalCosts_loop_Some:
  "calculateTotalCosts_loop rs (Some h, Some m) =
     (Some (h + sum_list (List.map_filter HourlyCost rs)),
      Some (m + sum_list (List.map_filter MonthlyCost rs)))"
proof (induction rs arbitrary: h m)
  case Nil
  show ?case by simp
next
  case (Cons r rs)
  show ?case
    by (simp add: addCost_Some Cons.IH add.assoc split: option.split)
qed

lemma calculateTotalCosts_sums:
  "calculateTotalCosts rs =
     (Some (sum_list (List.map_filter HourlyCost rs)),
      Some (sum_list (List.map_filter MonthlyCost rs)))"
  by (simp add: calculateTotalCosts_def decimalPtr_def decimal_Zero_def
      calculateTotalCosts_loop_Some)

lemma outputBreakdown_totals:
  "TotalHourlyCost (outputBreakdown srt rs) =
     fst (calculateTotalCosts (Resources (outputBreakdown srt rs)))"
  "TotalMonthlyCost (outputBreakdown srt rs) =
     snd (calculateTotalCosts (Resources (outputBreakdown srt rs)))"
  by (simp_all add: outputBreakdown_def Let_def split: prod.split)

text \<open>
  Claim C1. For every list of normalized resources the cost aggregator returns, first, the
  hourly total: present, and equal to the sum of the hourly costs that are not nil; and
  second, the monthly total: present, and equal to the sum of the monthly costs that are
  not nil. On the empty list both are a present decimal zero. The breakdown builder stores
  the hourly total of its (sorted) resource list in \<open>TotalHourlyCost\<close> and the monthly total
  in \<open>TotalMonthlyCost\<close>, whatever the sorting function does.
\<close>

theorem C1_aggregator_totals:
  "calculateTotalCosts rs =
     (Some (sum_list (List.map_filter HourlyCost rs)),
      Some (sum_list (List.map_filter MonthlyCost rs)))
   \<and> calculateTotalCosts [] = (Some decimal_Zero, Some decimal_Zero)
   \<and> TotalHourlyCost (outputBreakdown srt srs) =
       Some (sum_list (List.map_filter HourlyCost (Resources (outputBreakdown srt srs))))
   \<and> TotalMonthlyCost (outputBreakdown srt srs) =
       Some (sum_list (List.map_filter MonthlyCost (Resources (outputBreakdown srt srs))))"
proof -
  have "calculateTotalCosts [] = (Some decimal_Zero, Some decimal_Zero)"
    by (simp add: calculateTotalCosts_def decimalPtr_def)
  then show ?thesis
    by (simp add: outputBreakdown_totals calculateTotalCosts_sums)
qed

lemma Resources_outputBreakdown_example:
  "Resources (outputBreakdown insertionSort example_resources) =
     [Resource ''a'' Map.empty Map.empty (Some 2) None [] [],
      Resource ''b'' Map.empty Map.empty (Some 1) None [] []]"
  by (simp add: outputBreakdown_def Let_def example_resources_def example_schema_Resource_def
      sortResources_def insertionSort_def sortResources_less_def split: prod.split)

theorem C1_aggregator_totals_witness:
  "calculateTotalCosts
     [Resource ''b'' Map.empty Map.empty (Some 1) (Some 730) [] [],
      Resource ''a'' Map.empty Map.empty (Some 2) None [] []] = (Some 3, Some 730)
   \<and> calculateTotalCosts [] = (Some 0, Some 0)
   \<and> TotalHourlyCost (outputBreakdown insertionSort example_resources) = Some 3
   \<and> TotalMonthlyCost (outputBreakdown insertionSort example_resources) = Some 0"
  using C1_aggregator_totals [of
      "[Resource ''b'' Map.empty Map.empty (Some 1) (Some 730) [] [],
        Resource ''a'' Map.empty Map.empty (Some 2) None [] []]"
      insertionSort example_resources]
  unfolding Resources_outputBreakdown_example
  by (simp add: List.map_filter_simps decimal_Zero_def)

section \<open>Properties of sorting\<close>

lemma sortResources_less_key:
  "sortResources_less g a b \<longleftrightarrow> groupAndName g a < groupAndName g b"
  by (auto simp: sortResources_less_def groupAndName_def less_prod_def)

lemma transitive_ordering_key:
  fixes key :: "'a \<Rightarrow> 'k::linorder"
  shows "transitive_ordering (\<lambda>a b. key a < key b)"
  unfolding transitive_ordering_def by auto

lemma transitive_ordering_sortResources_less:
  "transitive_ordering (sortResources_less g)"
proof -
  have "sortResources_less g = (\<lambda>a b. groupAndName g a < groupAndName g b)"
    by (intro ext) (rule sortResources_less_key)
  then show ?thesis by (simp add: transitive_ordering_key)
qed

lemma sorted_wrt_not_less_key:
  "sorted_wrt (\<lambda>a b. \<not> sortResources_less g b a) ys \<longleftrightarrow> sorted (map (groupAndName g) ys)"
  by (simp add: sortResources_less_key sorted_map not_less)

lemma sortResources_contract:
  assumes "sort_Slice_contract srt"
  shows "mset (sortResources srt xs g) = mset xs"
    and "sorted (map (groupAndName g) (sortResources srt xs g))"
  using assms transitive_ordering_sortResources_less [of g]
  by (simp_all add: sort_Slice_contract_def sortResources_def sorted_wrt_not_less_key [symmetric])

lemma sorted_keys_unique:
  fixes key :: "'a \<Rightarrow> 'k::linorder"
  assumes "mset ys = mset zs" "sorted (map key ys)" "sorted (map key zs)"
  shows "map key ys = map key zs"
proof -
  have "mset (map key ys) = mset (map key zs)" using assms(1) by simp
  then have "sort (map key zs) = map key ys" using assms(2) by (rule properties_for_sort)
  moreover have "sort (map key zs) = map key zs" using assms(3) by (rule sort_key_id_if_sorted [where f = "\<lambda>x. x", simplified])
  ultimately show ?thesis by simp
qed

lemma sorted_unique_inj:
  fixes key :: "'a \<Rightarrow> 'k::linorder"
  assumes "mset ys = mset zs" "sorted (map key ys)" "sorted (map key zs)" "inj_on key (set ys)"
  shows "ys = zs"
proof -
  have "set zs = set ys" using assms(1) by (metis set_mset_mset)
  then have "inj_on key (set ys \<union> set zs)" using assms(4) by simp
  moreover have "map key ys = map key zs" using assms(1-3) by (rule sorted_keys_unique)
  ultimately show ?thesis by (simp add: inj_on_map_eq_map)
qed

lemma insertionSort_insert_mset:
  "mset (insertionSort_insert lt x ys) = add_mset x (mset ys)"
  by (induction ys) auto

lemma insertionSort_insert_set:
  "set (insertionSort_insert lt x ys) = insert x (set ys)"
  by (induction ys) auto

lemma insertionSort_insert_sorted:
  assumes "transitive_ordering lt" "sorted_wrt (\<lambda>a b. \<not> lt a b) ys"
  shows "sorted_wrt (\<lambda>a b. \<not> lt a b) (insertionSort_insert lt x ys)"
  using assms(2)
proof (induction ys)
  case Nil
  show ?case by simp
next
  case (Cons y ys)
  have irr: "\<And>a. \<not> lt a a" and tr: "\<And>a b c. lt a b \<Longrightarrow> lt b c \<Longrightarrow> lt a c"
    and ntr: "\<And>a b c. \<not> lt a b \<Longrightarrow> \<not> lt b c \<Longrightarrow> \<not> lt a c"
    using assms(1) unfolding transitive_ordering_def by blast+
  show ?case
  proof (cases "lt x y")
    case True
    then have "\<not> lt y x" using irr tr by blast
    with True Cons show ?thesis by (auto simp: insertionSort_insert_set)
  next
    case False
    with Cons.prems ntr show ?thesis by auto
  qed
qed

lemma fold_insertionSort_insert:
  assumes "transitive_ordering lt" "sorted_wrt (\<lambda>a b. \<not> lt a b) acc"
  shows "mset (fold (insertionSort_insert lt) xs acc) = mset xs + mset acc
       \<and> sorted_wrt (\<lambda>a b. \<not> lt a b) (fold (insertionSort_insert lt) xs acc)"
  using assms(2)
proof (induction xs arbitrary: acc)
  case Nil
  then show ?case by simp
next
  case (Cons x xs)
  from Cons.IH [OF insertionSort_insert_sorted [OF assms(1) Cons.prems]]
  show ?case by (simp add: insertionSort_insert_mset)
qed

lemma insertionSort_contract: "sort_Slice_contract insertionSort"
  unfolding sort_Slice_contract_def insertionSort_def
proof (intro allI impI)
  fix lt :: "'a \<Rightarrow> 'a \<Rightarrow> bool" and xs
  assume "transitive_ordering lt"
  from fold_insertionSort_insert [OF this, of "[]" xs]
  show "mset (rev (fold (insertionSort_insert lt) xs [])) = mset xs \<and>
        sorted_wrt (\<lambda>a b. \<not> lt b a) (rev (fold (insertionSort_insert lt) xs []))"
    by (simp add: sorted_wrt_rev)
qed

lemma sorted_map_nth_le:
  fixes key :: "'a \<Rightarrow> 'k::linorder"
  assumes "sorted (map key ys)" "i < j" "j < length ys"
  shows "key (ys ! i) \<le> key (ys ! j)"
proof -
  have "map key ys ! i \<le> map key ys ! j"
    using assms by (intro sorted_nth_mono) simp_all
  then show ?thesis using assms by simp
qed

lemma example_Resource_sel [simp]:
  "Name (example_Resource n t c) = n"
  "Metadata (example_Resource n t c) = [''team'' \<mapsto> t]"
  "HourlyCost (example_Resource n t c) = Some c"
  "MonthlyCost (example_Resource n t c) = None"
  by (simp_all add: example_Resource_def)

lemma example_Resource_eq [simp]:
  "example_Resource n t c = example_Resource n' t' c' \<longleftrightarrow> n = n' \<and> t = t' \<and> c = c'"
  by (auto simp: example_Resource_def dest: map_upd_eqD1)

lemma groupAndName_example [simp]:
  "groupAndName ''team'' (example_Resource n t c) = (t, n)"
  "groupAndName [] (example_Resource n t c) = ([], n)"
  by (simp_all add: groupAndName_def index_string_def)

lemma sortResources_less_example [simp]:
  "sortResources_less g (example_Resource n t c) (example_Resource n' t' c') \<longleftrightarrow>
     groupAndName g (example_Resource n t c) < groupAndName g (example_Resource n' t' c')"
  by (rule sortResources_less_key)

text \<open>
  Claim C6, as the code has it. Given a sorting function that meets the contract of
  \<^verbatim>\<open>sort.Slice\<close>, \<^verbatim>\<open>sortResources\<close> returns a permutation of its input in nondecreasing
  order of the pair (group-key value, name); two resources with the same group-key value
  appear in name order; the sequence of pairs in the output depends on the input only as
  a multiset, not on its order. When no two different resources of the input share a
  pair, the output itself does not depend on the order of the input and sorting a sorted
  list again returns it unchanged.
\<close>

theorem C6_sortResources_order:
  assumes "sort_Slice_contract srt"
  shows "mset (sortResources srt xs g) = mset xs
    \<and> sorted (map (groupAndName g) (sortResources srt xs g))
    \<and> (\<forall>i j. i < j \<and> j < length xs
          \<and> fst (groupAndName g (sortResources srt xs g ! i))
              = fst (groupAndName g (sortResources srt xs g ! j))
          \<longrightarrow> Name (sortResources srt xs g ! i) \<le> Name (sortResources srt xs g ! j))
    \<and> (\<forall>xs'. mset xs' = mset xs \<longrightarrow>
          map (groupAndName g) (sortResources srt xs' g)
            = map (groupAndName g) (sortResources srt xs g))
    \<and> (inj_on (groupAndName g) (set xs) \<longrightarrow>
          (\<forall>xs'. mset xs' = mset xs \<longrightarrow> sortResources srt xs' g = sortResources srt xs g)
          \<and> sortResources srt (sortResources srt xs g) g = sortResources srt xs g)"
proof -
  let ?ys = "sortResources srt xs g"
  have perm: "\<And>zs. mset (sortResources srt zs g) = mset zs"
    and srtd: "\<And>zs. sorted (map (groupAndName g) (sortResources srt zs g))"
    using sortResources_contract [OF assms] by blast+
  have len: "length ?ys = length xs"
    using perm [of xs] by (metis size_mset)
  have names: "Name (?ys ! i) \<le> Name (?ys ! j)"
    if "i < j" "j < length xs"
      "fst (groupAndName g (?ys ! i)) = fst (groupAndName g (?ys ! j))" for i j
  proof -
    have "groupAndName g (?ys ! i) \<le> groupAndName g (?ys ! j)"
      using srtd [of xs] that(1,2) len by (intro sorted_map_nth_le) simp_all
    with that(3) show ?thesis
      by (auto simp: less_eq_prod_def groupAndName_def split: if_splits)
  qed
  have keys: "map (groupAndName g) (sortResources srt xs' g) = map (groupAndName g) ?ys"
    if "mset xs' = mset xs" for xs'
    using that perm srtd by (intro sorted_keys_unique) simp_all
  have uniq: "sortResources srt xs' g = ?ys"
    if inj: "inj_on (groupAndName g) (set xs)" and "mset xs' = mset xs" for xs'
  proof (rule sorted_unique_inj [where key = "groupAndName g"])
    show "mset (sortResources srt xs' g) = mset ?ys" using that perm by simp
    show "sorted (map (groupAndName g) (sortResources srt xs' g))" by (rule srtd)
    show "sorted (map (groupAndName g) ?ys)" by (rule srtd)
    have "set (sortResources srt xs' g) = set xs"
      using perm [of xs'] that(2) by (metis set_mset_mset)
    then show "inj_on (groupAndName g) (set (sortResources srt xs' g))" using inj by simp
  qed
  have idem: "sortResources srt ?ys g = ?ys" if "inj_on (groupAndName g) (set xs)"
    using uniq [OF that, of ?ys] perm by simp
  show ?thesis
    using perm srtd names keys uniq idem by blast
qed

text \<open>
  The claim as worded does not hold: the output order can depend on the insertion order.
  Two resources with the same name and different costs are left in the order they came in
  by insertion sort, which is what \<^verbatim>\<open>sort.Slice\<close> runs on a two-element slice and which meets
  the contract; the comparison looks at nothing but the name.
\<close>

theorem C6_order_counterexample:
  "sort_Slice_contract (insertionSort :: sorter)
   \<and> mset [example_Resource ''a'' ''x'' 1, example_Resource ''a'' ''x'' 2]
       = mset [example_Resource ''a'' ''x'' 2, example_Resource ''a'' ''x'' 1]
   \<and> sortResources insertionSort [example_Resource ''a'' ''x'' 1, example_Resource ''a'' ''x'' 2] []
       = [example_Resource ''a'' ''x'' 1, example_Resource ''a'' ''x'' 2]
   \<and> sortResources insertionSort [example_Resource ''a'' ''x'' 2, example_Resource ''a'' ''x'' 1] []
       = [example_Resource ''a'' ''x'' 2, example_Resource ''a'' ''x'' 1]
   \<and> [example_Resource ''a'' ''x'' 1, example_Resource ''a'' ''x'' 2]
       \<noteq> [example_Resource ''a'' ''x'' 2, example_Resource ''a'' ''x'' 1]"
  by (simp add: insertionSort_contract sortResources_def insertionSort_def)

theorem C6_sortResources_order_witness:
  "sort_Slice_contract (insertionSort :: sorter)
   \<and> inj_on (groupAndName ''team'')
        (set [example_Resource ''b'' ''x'' 2, example_Resource ''a'' ''x'' 1,
              example_Resource ''c'' ''w'' 3])
   \<and> mset [example_Resource ''c'' ''w'' 3, example_Resource ''b'' ''x'' 2,
            example_Resource ''a'' ''x'' 1]
       = mset [example_Resource ''b'' ''x'' 2, example_Resource ''a'' ''x'' 1,
               example_Resource ''c'' ''w'' 3]
   \<and> sortResources insertionSort
        [example_Resource ''b'' ''x'' 2, example_Resource ''a'' ''x'' 1,
         example_Resource ''c'' ''w'' 3] ''team''
       = [example_Resource ''c'' ''w'' 3, example_Resource ''a'' ''x'' 1,
          example_Resource ''b'' ''x'' 2]
   \<and> sortResources insertionSort
        [example_Resource ''c'' ''w'' 3, example_Resource ''b'' ''x'' 2,
         example_Resource ''a'' ''x'' 1] ''team''
       = sortResources insertionSort
           [example_Resource ''b'' ''x'' 2, example_Resource ''a'' ''x'' 1,
            example_Resource ''c'' ''w'' 3] ''team''
   \<and> sortResources insertionSort
        (sortResources insertionSort
           [example_Resource ''b'' ''x'' 2, example_Resource ''a'' ''x'' 1,
            example_Resource ''c'' ''w'' 3] ''team'') ''team''
       = sortResources insertionSort
           [example_Resource ''b'' ''x'' 2, example_Resource ''a'' ''x'' 1,
            example_Resource ''c'' ''w'' 3] ''team''"
proof -
  let ?xs = "[example_Resource ''b'' ''x'' 2, example_Resource ''a'' ''x'' 1,
              example_Resource ''c'' ''w'' 3]"
  let ?xs' = "[example_Resource ''c'' ''w'' 3, example_Resource ''b'' ''x'' 2,
               example_Resource ''a'' ''x'' 1]"
  note order = C6_sortResources_order [OF insertionSort_contract, of ?xs "''team''"]
  have inj: "inj_on (groupAndName ''team'') (set ?xs)" by simp
  have perm: "mset ?xs' = mset ?xs" by simp
  have val: "sortResources insertionSort ?xs ''team''
      = [example_Resource ''c'' ''w'' 3, example_Resource ''a'' ''x'' 1,
         example_Resource ''b'' ''x'' 2]"
    by (simp add: sortResources_def insertionSort_def)
  from order inj perm
  have "sortResources insertionSort ?xs' ''team'' = sortResources insertionSort ?xs ''team''"
    and "sortResources insertionSort (sortResources insertionSort ?xs ''team'') ''team''
          = sortResources insertionSort ?xs ''team''"
    by blast+
  with inj perm val insertionSort_contract show ?thesis by blast
qed

section \<open>Properties of the breakdown builder\<close>

lemma mset_map_filter:
  assumes "mset ys = mset xs"
  shows "mset (List.map_filter f ys) = mset (List.map_filter f xs)"
proof -
  have "mset (List.map_filter f zs) = image_mset (the \<circ> f) (filter_mset (\<lambda>x. f x \<noteq> None) (mset zs))"
    for zs
    by (simp add: List.map_filter_def)
  then show ?thesis using assms by simp
qed

lemma sum_list_map_filter_perm:
  fixes f :: "'a \<Rightarrow> decimal option"
  assumes "mset ys = mset xs"
  shows "sum_list (List.map_filter f ys) = sum_list (List.map_filter f xs)"
proof -
  have "sum_mset (mset (List.map_filter f ys)) = sum_mset (mset (List.map_filter f xs))"
    using mset_map_filter [OF assms, of f] by simp
  then show ?thesis by (simp only: sum_mset_sum_list)
qed

lemma HourlyCost_outputResource: "HourlyCost (outputResource r) = s_HourlyCost r"
  by (cases r) simp

lemma MonthlyCost_outputResource: "MonthlyCost (outputResource r) = s_MonthlyCost r"
  by (cases r) simp

lemma map_filter_map: "List.map_filter f (map g xs) = List.map_filter (f \<circ> g) xs"
  by (induction xs) (simp_all add: List.map_filter_simps split: option.split)

lemma outputBreakdown_skips:
  "outputBreakdown srt rs = outputBreakdown srt (filter (\<lambda>r. \<not> s_IsSkipped r) rs)"
  by (simp add: outputBreakdown_def)

lemma outputBreakdown_contract:
  assumes "sort_Slice_contract srt"
  shows "mset (Resources (outputBreakdown srt rs)) =
           mset (map outputResource (filter (\<lambda>r. \<not> s_IsSkipped r) rs))"
    and "TotalHourlyCost (outputBreakdown srt rs) =
           Some (sum_list (List.map_filter s_HourlyCost (filter (\<lambda>r. \<not> s_IsSkipped r) rs)))"
    and "TotalMonthlyCost (outputBreakdown srt rs) =
           Some (sum_list (List.map_filter s_MonthlyCost (filter (\<lambda>r. \<not> s_IsSkipped r) rs)))"
proof -
  let ?kept = "filter (\<lambda>r. \<not> s_IsSkipped r) rs"
  have res: "Resources (outputBreakdown srt rs) = sortResources srt (map outputResource ?kept) []"
    by (simp add: outputBreakdown_def Let_def split: prod.split)
  show perm: "mset (Resources (outputBreakdown srt rs)) = mset (map outputResource ?kept)"
    unfolding res by (rule sortResources_contract(1) [OF assms])
  have h: "HourlyCost \<circ> outputResource = s_HourlyCost"
    and m: "MonthlyCost \<circ> outputResource = s_MonthlyCost"
    by (auto simp: HourlyCost_outputResource MonthlyCost_outputResource)
  show "TotalHourlyCost (outputBreakdown srt rs) = Some (sum_list (List.map_filter s_HourlyCost ?kept))"
    using sum_list_map_filter_perm [OF perm, of HourlyCost]
    by (simp add: outputBreakdown_totals calculateTotalCosts_sums map_filter_map h)
  show "TotalMonthlyCost (outputBreakdown srt rs) = Some (sum_list (List.map_filter s_MonthlyCost ?kept))"
    using sum_list_map_filter_perm [OF perm, of MonthlyCost]
    by (simp add: outputBreakdown_totals calculateTotalCosts_sums map_filter_map m)
qed

section \<open>Properties of the report assembler\<close>

lemma fold_ToOutputFormat_body_outResources:
  "outResources (fold (ToOutputFormat_body srt hsp) ps v) =
     outResources v @ concat (map (\<lambda>p. Resources (outputBreakdown srt (p_Resources p))) ps)"
  by (induction ps arbitrary: v) (simp_all add: ToOutputFormat_body_def Let_def)

lemma fold_ToOutputFormat_body_breakdowns:
  "map pr_Breakdown (outProjectResults (fold (ToOutputFormat_body srt hsp) ps v)) =
     map pr_Breakdown (outProjectResults v)
       @ map (\<lambda>p. Some (outputBreakdown srt (p_Resources p))) ps"
  by (induction ps arbitrary: v) (simp_all add: ToOutputFormat_body_def Let_def)

lemma fold_ToOutputFormat_body_totalMonthlyCost:
  "totalMonthlyCost (fold (ToOutputFormat_body srt hsp) ps v) =
     fold (\<lambda>b t. addBreakdownTotal t b TotalMonthlyCost)
       (map (\<lambda>p. Some (outputBreakdown srt (p_Resources p))) ps) (totalMonthlyCost v)"
  by (induction ps arbitrary: v) (simp_all add: ToOutputFormat_body_def Let_def)

lemma fold_ToOutputFormat_body_totalHourlyCost:
  "totalHourlyCost (fold (ToOutputFormat_body srt hsp) ps v) =
     fold (\<lambda>b t. addBreakdownTotal t b TotalHourlyCost)
       (map (\<lambda>p. Some (outputBreakdown srt (p_Resources p))) ps) (totalHourlyCost v)"
  by (induction ps arbitrary: v) (simp_all add: ToOutputFormat_body_def Let_def)

lemma ToOutputFormat_breakdowns:
  "map pr_Breakdown (ProjectResults (ToOutputFormat srt hsp now ps)) =
     map (\<lambda>p. Some (outputBreakdown srt (p_Resources p))) ps"
  by (simp add: ToOutputFormat_def Let_def fold_ToOutputFormat_body_breakdowns)

lemma addCost_None:
  "addCost None cost = (case cost of None \<Rightarrow> None | Some c \<Rightarrow> Some c)"
  by (simp add: addCost_def decimalPtr_def decimal_Add_def decimal_Zero_def split: option.split)

lemma addBreakdownTotal_simps:
  "addBreakdownTotal t None f = t"
  "addBreakdownTotal t (Some b) f = addCost t (f b)"
  by (simp_all add: addBreakdownTotal_def)

lemma fold_addBreakdownTotal_Some:
  "fold (\<lambda>b t. addBreakdownTotal t b f) bs (Some t0) =
     Some (t0 + sum_list (List.map_filter (\<lambda>b. Option.bind b f) bs))"
proof (induction bs arbitrary: t0)
  case Nil
  show ?case by (simp add: List.map_filter_simps)
next
  case (Cons b bs)
  show ?case
    by (cases b)
      (simp_all add: addBreakdownTotal_simps addCost_Some Cons.IH List.map_filter_simps add.assoc
        split: option.split)
qed

lemma fold_addBreakdownTotal_None:
  "fold (\<lambda>b t. addBreakdownTotal t b f) bs None =
     (if List.map_filter (\<lambda>b. Option.bind b f) bs = [] then None
      else Some (sum_list (List.map_filter (\<lambda>b. Option.bind b f) bs)))"
proof (induction bs)
  case Nil
  show ?case by (simp add: List.map_filter_simps)
next
  case (Cons b bs)
  show ?case
  proof (cases b)
    case None
    then show ?thesis using Cons.IH by (simp add: addBreakdownTotal_simps List.map_filter_simps)
  next
    case (Some bd)
    show ?thesis
    proof (cases "f bd")
      case None
      with Some show ?thesis
        using Cons.IH by (simp add: addBreakdownTotal_simps addCost_None List.map_filter_simps)
    next
      case (Some c)
      with \<open>b = Some bd\<close> show ?thesis
        by (simp add: addBreakdownTotal_simps addCost_None fold_addBreakdownTotal_Some
            List.map_filter_simps)
    qed
  qed
qed

lemma outputBreakdown_example_empty:
  "outputBreakdown insertionSort [] =
     \<lparr> Resources = [], TotalHourlyCost = Some 0, TotalMonthlyCost = Some 0 \<rparr>"
  by (simp add: outputBreakdown_def sortResources_def insertionSort_def calculateTotalCosts_def
      decimalPtr_def decimal_Zero_def)

lemma outputBreakdown_example_single:
  "outputBreakdown insertionSort [example_schema_Resource n t False np h m] =
     \<lparr> Resources = [Resource n Map.empty Map.empty h m [] []],
       TotalHourlyCost = Some (case h of None \<Rightarrow> 0 | Some c \<Rightarrow> c),
       TotalMonthlyCost = Some (case m of None \<Rightarrow> 0 | Some c \<Rightarrow> c) \<rparr>"
  by (simp add: outputBreakdown_def sortResources_def insertionSort_def calculateTotalCosts_def
      decimalPtr_def decimal_Zero_def example_schema_Resource_def addCost_Some)

lemma map_filter_Some_breakdowns:
  "List.map_filter (\<lambda>b. Option.bind b field) (map (\<lambda>p. Some (g p)) ps) =
     List.map_filter (\<lambda>p. field (g p)) ps"
  by (induction ps) (simp_all add: List.map_filter_simps split: option.split)

lemma map_filter_all_Some:
  assumes "\<And>p. f p = Some (h p)"
  shows "List.map_filter f ps = map h ps"
  by (induction ps) (simp_all add: List.map_filter_simps assms)

lemma ToOutputFormat_totals:
  "root_TotalMonthlyCost (ToOutputFormat srt hsp now ps) =
     (if ps = [] then None
      else Some (sum_list (map (\<lambda>p. sum_list (List.map_filter MonthlyCost
                    (Resources (outputBreakdown srt (p_Resources p))))) ps)))"
  "root_TotalHourlyCost (ToOutputFormat srt hsp now ps) =
     (if ps = [] then None
      else Some (sum_list (map (\<lambda>p. sum_list (List.map_filter HourlyCost
                    (Resources (outputBreakdown srt (p_Resources p))))) ps)))"
proof -
  have m: "List.map_filter (\<lambda>p. TotalMonthlyCost (outputBreakdown srt (p_Resources p))) ps =
      map (\<lambda>p. sum_list (List.map_filter MonthlyCost
                    (Resources (outputBreakdown srt (p_Resources p))))) ps"
    by (rule map_filter_all_Some) (simp add: outputBreakdown_totals calculateTotalCosts_sums)
  have h: "List.map_filter (\<lambda>p. TotalHourlyCost (outputBreakdown srt (p_Resources p))) ps =
      map (\<lambda>p. sum_list (List.map_filter HourlyCost
                    (Resources (outputBreakdown srt (p_Resources p))))) ps"
    by (rule map_filter_all_Some) (simp add: outputBreakdown_totals calculateTotalCosts_sums)
  show "root_TotalMonthlyCost (ToOutputFormat srt hsp now ps) =
     (if ps = [] then None
      else Some (sum_list (map (\<lambda>p. sum_list (List.map_filter MonthlyCost
                    (Resources (outputBreakdown srt (p_Resources p))))) ps)))"
    by (simp add: ToOutputFormat_def Let_def fold_ToOutputFormat_body_totalMonthlyCost
        fold_addBreakdownTotal_None map_filter_Some_breakdowns m)
  show "root_TotalHourlyCost (ToOutputFormat srt hsp now ps) =
     (if ps = [] then None
      else Some (sum_list (map (\<lambda>p. sum_list (List.map_filter HourlyCost
                    (Resources (outputBreakdown srt (p_Resources p))))) ps)))"
    by (simp add: ToOutputFormat_def Let_def fold_ToOutputFormat_body_totalHourlyCost
        fold_addBreakdownTotal_None map_filter_Some_breakdowns h)
qed

lemma ToOutputFormat_totals_contract:
  assumes "sort_Slice_contract srt"
  shows "root_TotalMonthlyCost (ToOutputFormat srt hsp now ps) =
     (if ps = [] then None
      else Some (sum_list (map (\<lambda>p. sum_list (List.map_filter s_MonthlyCost
                    (filter (\<lambda>r. \<not> s_IsSkipped r) (p_Resources p)))) ps)))"
    and "root_TotalHourlyCost (ToOutputFormat srt hsp now ps) =
     (if ps = [] then None
      else Some (sum_list (map (\<lambda>p. sum_list (List.map_filter s_HourlyCost
                    (filter (\<lambda>r. \<not> s_IsSkipped r) (p_Resources p)))) ps)))"
proof -
  have m: "sum_list (List.map_filter MonthlyCost (Resources (outputBreakdown srt rs))) =
      sum_list (List.map_filter s_MonthlyCost (filter (\<lambda>r. \<not> s_IsSkipped r) rs))" for rs
    using outputBreakdown_contract(3) [OF assms, of rs]
    by (simp add: outputBreakdown_totals calculateTotalCosts_sums)
  have h: "sum_list (List.map_filter HourlyCost (Resources (outputBreakdown srt rs))) =
      sum_list (List.map_filter s_HourlyCost (filter (\<lambda>r. \<not> s_IsSkipped r) rs))" for rs
    using outputBreakdown_contract(2) [OF assms, of rs]
    by (simp add: outputBreakdown_totals calculateTotalCosts_sums)
  show "root_TotalMonthlyCost (ToOutputFormat srt hsp now ps) =
     (if ps = [] then None
      else Some (sum_list (map (\<lambda>p. sum_list (List.map_filter s_MonthlyCost
                    (filter (\<lambda>r. \<not> s_IsSkipped r) (p_Resources p)))) ps)))"
    by (simp only: ToOutputFormat_totals(1) m)
  show "root_TotalHourlyCost (ToOutputFormat srt hsp now ps) =
     (if ps = [] then None
      else Some (sum_list (map (\<lambda>p. sum_list (List.map_filter s_HourlyCost
                    (filter (\<lambda>r. \<not> s_IsSkipped r) (p_Resources p)))) ps)))"
    by (simp only: ToOutputFormat_totals(2) h)
qed

text \<open>
  Claim C4. The current breakdowns of the project results are the breakdowns of the
  resources of the input projects, one for each project and in their order. The
  report-wide totals are the running totals of the loop of \<^verbatim>\<open>ToOutputFormat\<close> over these
  breakdowns, starting from nil. For every list of breakdowns (nil entries and nil totals
  allowed) that running total is nil as long as no breakdown has a total that is not nil,
  and otherwise it is the sum of the totals that are not nil: a nil total adds nothing
  and does not turn the result into nil. For two breakdowns, one with a nil monthly total
  and one with monthly total 10, in either order, the result is 10. Since the breakdown
  builder never leaves a total nil, the report-wide totals are nil for no project and
  otherwise the sums, over every input project, of the totals of its breakdown; with a
  sorting function that meets the contract of \<^verbatim>\<open>sort.Slice\<close> these are the sums of the costs
  of the resources of every project that are not skipped.
\<close>

theorem C4_report_totals:
  "map pr_Breakdown (ProjectResults (ToOutputFormat srt hsp now ps)) =
     map (\<lambda>p. Some (outputBreakdown srt (p_Resources p))) ps
   \<and> root_TotalMonthlyCost (ToOutputFormat srt hsp now ps) =
     fold (\<lambda>b t. addBreakdownTotal t b TotalMonthlyCost)
       (map pr_Breakdown (ProjectResults (ToOutputFormat srt hsp now ps))) None
   \<and> root_TotalHourlyCost (ToOutputFormat srt hsp now ps) =
     fold (\<lambda>b t. addBreakdownTotal t b TotalHourlyCost)
       (map pr_Breakdown (ProjectResults (ToOutputFormat srt hsp now ps))) None
   \<and> fold (\<lambda>b t. addBreakdownTotal t b field) bs None =
     (if List.map_filter (\<lambda>b. Option.bind b field) bs = [] then None
      else Some (sum_list (List.map_filter (\<lambda>b. Option.bind b field) bs)))
   \<and> (TotalMonthlyCost b1 = None \<and> TotalMonthlyCost b2 = Some 10 \<longrightarrow>
        fold (\<lambda>b t. addBreakdownTotal t b TotalMonthlyCost) [Some b1, Some b2] None = Some 10
      \<and> fold (\<lambda>b t. addBreakdownTotal t b TotalMonthlyCost) [Some b2, Some b1] None = Some 10)
   \<and> root_TotalMonthlyCost (ToOutputFormat srt hsp now ps) =
     (if ps = [] then None
      else Some (sum_list (map (\<lambda>p. sum_list (List.map_filter MonthlyCost
                    (Resources (outputBreakdown srt (p_Resources p))))) ps)))
   \<and> root_TotalHourlyCost (ToOutputFormat srt hsp now ps) =
     (if ps = [] then None
      else Some (sum_list (map (\<lambda>p. sum_list (List.map_filter HourlyCost
                    (Resources (outputBreakdown srt (p_Resources p))))) ps)))
   \<and> (sort_Slice_contract srt \<longrightarrow>
        root_TotalMonthlyCost (ToOutputFormat srt hsp now ps) =
          (if ps = [] then None
           else Some (sum_list (map (\<lambda>p. sum_list (List.map_filter s_MonthlyCost
                         (filter (\<lambda>r. \<not> s_IsSkipped r) (p_Resources p)))) ps)))
        \<and> root_TotalHourlyCost (ToOutputFormat srt hsp now ps) =
          (if ps = [] then None
           else Some (sum_list (map (\<lambda>p. sum_list (List.map_filter s_HourlyCost
                         (filter (\<lambda>r. \<not> s_IsSkipped r) (p_Resources p)))) ps))))"
proof -
  have monthly: "root_TotalMonthlyCost (ToOutputFormat srt hsp now ps) =
     fold (\<lambda>b t. addBreakdownTotal t b TotalMonthlyCost)
       (map pr_Breakdown (ProjectResults (ToOutputFormat srt hsp now ps))) None"
    unfolding ToOutputFormat_breakdowns
    by (simp add: ToOutputFormat_def Let_def fold_ToOutputFormat_body_totalMonthlyCost)
  have hourly: "root_TotalHourlyCost (ToOutputFormat srt hsp now ps) =
     fold (\<lambda>b t. addBreakdownTotal t b TotalHourlyCost)
       (map pr_Breakdown (ProjectResults (ToOutputFormat srt hsp now ps))) None"
    unfolding ToOutputFormat_breakdowns
    by (simp add: ToOutputFormat_def Let_def fold_ToOutputFormat_body_totalHourlyCost)
  have scenario: "TotalMonthlyCost b1 = None \<and> TotalMonthlyCost b2 = Some 10 \<longrightarrow>
        fold (\<lambda>b t. addBreakdownTotal t b TotalMonthlyCost) [Some b1, Some b2] None = Some 10
      \<and> fold (\<lambda>b t. addBreakdownTotal t b TotalMonthlyCost) [Some b2, Some b1] None = Some 10"
    by (simp add: addBreakdownTotal_simps addCost_None addCost_Some)
  have contract: "sort_Slice_contract srt \<longrightarrow>
        root_TotalMonthlyCost (ToOutputFormat srt hsp now ps) =
          (if ps = [] then None
           else Some (sum_list (map (\<lambda>p. sum_list (List.map_filter s_MonthlyCost
                         (filter (\<lambda>r. \<not> s_IsSkipped r) (p_Resources p)))) ps)))
        \<and> root_TotalHourlyCost (ToOutputFormat srt hsp now ps) =
          (if ps = [] then None
           else Some (sum_list (map (\<lambda>p. sum_list (List.map_filter s_HourlyCost
                         (filter (\<lambda>r. \<not> s_IsSkipped r) (p_Resources p)))) ps)))"
    by (intro impI conjI) (rule ToOutputFormat_totals_contract, assumption)+
  show ?thesis
    by (intro conjI ToOutputFormat_breakdowns monthly hourly fold_addBreakdownTotal_None
        scenario ToOutputFormat_totals contract)
qed

theorem C4_report_totals_witness:
  "sort_Slice_contract (insertionSort :: sorter)
   \<and> TotalMonthlyCost \<lparr> Resources = [], TotalHourlyCost = None, TotalMonthlyCost = None \<rparr> = None
   \<and> TotalMonthlyCost \<lparr> Resources = [], TotalHourlyCost = None, TotalMonthlyCost = Some 10 \<rparr>
       = Some 10
   \<and> fold (\<lambda>b t. addBreakdownTotal t b TotalMonthlyCost)
       [Some \<lparr> Resources = [], TotalHourlyCost = None, TotalMonthlyCost = None \<rparr>,
        Some \<lparr> Resources = [], TotalHourlyCost = None, TotalMonthlyCost = Some 10 \<rparr>] None
       = Some 10
   \<and> map pr_Breakdown (ProjectResults
       (ToOutputFormat insertionSort example_HasSupportedProvider 0
          [example_Project ''empty'' [],
           (example_Project ''ten''
             [example_schema_Resource ''aws_instance.web'' ''aws_instance'' False False
                None (Some 10)]) \<lparr> p_HasDiff := True \<rparr>]))
       = [Some \<lparr> Resources = [], TotalHourlyCost = Some 0, TotalMonthlyCost = Some 0 \<rparr>,
          Some \<lparr> Resources =
                   [Resource ''aws_instance.web'' Map.empty Map.empty None (Some 10) [] []],
                 TotalHourlyCost = Some 0, TotalMonthlyCost = Some 10 \<rparr>]
   \<and> root_TotalMonthlyCost
       (ToOutputFormat insertionSort example_HasSupportedProvider 0
          [example_Project ''empty'' [],
           (example_Project ''ten''
             [example_schema_Resource ''aws_instance.web'' ''aws_instance'' False False
                None (Some 10)]) \<lparr> p_HasDiff := True \<rparr>])
       = Some 10
   \<and> root_TotalHourlyCost
       (ToOutputFormat insertionSort example_HasSupportedProvider 0
          [example_Project ''empty'' [],
           (example_Project ''ten''
             [example_schema_Resource ''aws_instance.web'' ''aws_instance'' False False
                None (Some 10)]) \<lparr> p_HasDiff := True \<rparr>])
       = Some 0
   \<and> root_TotalMonthlyCost
       (ToOutputFormat insertionSort example_HasSupportedProvider 0 []) = None"
proof -
  let ?b1 = "\<lparr> Resources = [], TotalHourlyCost = None, TotalMonthlyCost = None \<rparr>"
  let ?b2 = "\<lparr> Resources = [], TotalHourlyCost = None, TotalMonthlyCost = Some (10::decimal) \<rparr>"
  let ?ps = "[example_Project ''empty'' [],
           (example_Project ''ten''
             [example_schema_Resource ''aws_instance.web'' ''aws_instance'' False False
                None (Some 10)]) \<lparr> p_HasDiff := True \<rparr>]"
  let ?R = "ToOutputFormat insertionSort example_HasSupportedProvider 0 ?ps"
  note rule = C4_report_totals [of insertionSort example_HasSupportedProvider 0 ?ps
      TotalMonthlyCost "[Some ?b1, Some ?b2]" ?b1 ?b2]
  note none = C4_report_totals [of insertionSort example_HasSupportedProvider 0 "[]"
      TotalMonthlyCost "[]" ?b1 ?b2]
  from rule have "map pr_Breakdown (ProjectResults ?R) =
      map (\<lambda>p. Some (outputBreakdown insertionSort (p_Resources p))) ?ps"
    by (rule conjunct1)
  then have bs: "map pr_Breakdown (ProjectResults ?R) =
      [Some \<lparr> Resources = [], TotalHourlyCost = Some 0, TotalMonthlyCost = Some 0 \<rparr>,
       Some \<lparr> Resources = [Resource ''aws_instance.web'' Map.empty Map.empty None (Some 10) [] []],
              TotalHourlyCost = Some 0, TotalMonthlyCost = Some 10 \<rparr>]"
    by (simp add: example_Project_def outputBreakdown_example_empty
        outputBreakdown_example_single)
  from rule have "root_TotalMonthlyCost ?R =
     fold (\<lambda>b t. addBreakdownTotal t b TotalMonthlyCost) (map pr_Breakdown (ProjectResults ?R)) None"
    and "root_TotalHourlyCost ?R =
     fold (\<lambda>b t. addBreakdownTotal t b TotalHourlyCost) (map pr_Breakdown (ProjectResults ?R)) None"
    by blast+
  then have totals: "root_TotalMonthlyCost ?R = Some 10" "root_TotalHourlyCost ?R = Some 0"
    unfolding bs by (simp_all add: addBreakdownTotal_simps addCost_None addCost_Some)
  have nils: "TotalMonthlyCost ?b1 = None" "TotalMonthlyCost ?b2 = Some 10" by simp_all
  with rule have scenario:
    "fold (\<lambda>b t. addBreakdownTotal t b TotalMonthlyCost) [Some ?b1, Some ?b2] None = Some 10"
    by blast
  from none have empty: "root_TotalMonthlyCost
       (ToOutputFormat insertionSort example_HasSupportedProvider 0 []) = None"
    by simp
  from insertionSort_contract nils scenario bs totals empty show ?thesis by (intro conjI)
qed

text \<open>
  Claim C5. The flat resource list of the report is \<^verbatim>\<open>sortResources\<close>, with the empty
  grouping key, of the concatenation of the resource lists of the current breakdowns of
  the project results, in project order; these breakdowns are the breakdowns of the
  projects' resources. With a sorting function that meets the contract of \<^verbatim>\<open>sort.Slice\<close>
  the flat list is a permutation of that concatenation in nondecreasing name order.
\<close>

theorem C5_flat_resources:
  "root_Resources (ToOutputFormat srt hsp now ps) =
     sortResources srt
       (concat (map (\<lambda>pr. case pr_Breakdown pr of None \<Rightarrow> [] | Some b \<Rightarrow> Resources b)
          (ProjectResults (ToOutputFormat srt hsp now ps)))) []
   \<and> map pr_Breakdown (ProjectResults (ToOutputFormat srt hsp now ps)) =
       map (\<lambda>p. Some (outputBreakdown srt (p_Resources p))) ps
   \<and> (sort_Slice_contract srt \<longrightarrow>
        mset (root_Resources (ToOutputFormat srt hsp now ps)) =
          mset (concat (map (\<lambda>pr. case pr_Breakdown pr of None \<Rightarrow> [] | Some b \<Rightarrow> Resources b)
            (ProjectResults (ToOutputFormat srt hsp now ps))))
        \<and> sorted (map Name (root_Resources (ToOutputFormat srt hsp now ps))))"
proof -
  let ?R = "ToOutputFormat srt hsp now ps"
  let ?cat = "concat (map (\<lambda>pr. case pr_Breakdown pr of None \<Rightarrow> [] | Some b \<Rightarrow> Resources b)
          (ProjectResults ?R))"
  have "?cat = concat (map (\<lambda>b. case b of None \<Rightarrow> [] | Some b \<Rightarrow> Resources b)
          (map pr_Breakdown (ProjectResults ?R)))"
    by (simp add: comp_def)
  also have "\<dots> = concat (map (\<lambda>p. Resources (outputBreakdown srt (p_Resources p))) ps)"
    unfolding ToOutputFormat_breakdowns by (simp add: comp_def)
  finally have cat: "?cat = concat (map (\<lambda>p. Resources (outputBreakdown srt (p_Resources p))) ps)" .
  have flat: "root_Resources ?R = sortResources srt ?cat []"
    unfolding cat
    by (simp add: ToOutputFormat_def Let_def fold_ToOutputFormat_body_outResources)
  have sorted_names: "sorted (map Name (root_Resources ?R))" if "sort_Slice_contract srt"
  proof -
    have "sorted (map (groupAndName []) (sortResources srt ?cat []))"
      using sortResources_contract(2) [OF that] .
    then have "sorted (map snd (map (groupAndName []) (sortResources srt ?cat [])))"
      by (auto simp: sorted_map sorted_wrt_iff_nth_less groupAndName_def less_eq_prod_def)
    then show ?thesis unfolding flat by (simp add: comp_def groupAndName_def)
  qed
  show ?thesis
    using flat ToOutputFormat_breakdowns [of srt hsp now ps] sorted_names
      sortResources_contract(1) [of srt ?cat "[]"]
    by simp
qed

theorem C5_flat_resources_witness:
  "sort_Slice_contract (insertionSort :: sorter)
   \<and> root_Resources
       (ToOutputFormat insertionSort example_HasSupportedProvider 0
          [example_Project ''one''
             [example_schema_Resource ''b'' ''aws_instance'' False False (Some 1) (Some 730)],
           example_Project ''two''
             [example_schema_Resource ''a'' ''aws_instance'' False False (Some 2) (Some 1460)]])
       = [Resource ''a'' Map.empty Map.empty (Some 2) (Some 1460) [] [],
          Resource ''b'' Map.empty Map.empty (Some 1) (Some 730) [] []]
   \<and> sorted (map Name (root_Resources
       (ToOutputFormat insertionSort example_HasSupportedProvider 0
          [example_Project ''one''
             [example_schema_Resource ''b'' ''aws_instance'' False False (Some 1) (Some 730)],
           example_Project ''two''
             [example_schema_Resource ''a'' ''aws_instance'' False False (Some 2) (Some 1460)]])))"
proof -
  let ?ps = "[example_Project ''one''
             [example_schema_Resource ''b'' ''aws_instance'' False False (Some 1) (Some 730)],
           example_Project ''two''
             [example_schema_Resource ''a'' ''aws_instance'' False False (Some 2) (Some 1460)]]"
  note rule = C5_flat_resources [of insertionSort example_HasSupportedProvider 0 ?ps]
  let ?R = "ToOutputFormat insertionSort example_HasSupportedProvider 0 ?ps"
  from rule have bs: "map pr_Breakdown (ProjectResults ?R) =
      [Some \<lparr> Resources = [Resource ''b'' Map.empty Map.empty (Some 1) (Some 730) [] []],
              TotalHourlyCost = Some 1, TotalMonthlyCost = Some 730 \<rparr>,
       Some \<lparr> Resources = [Resource ''a'' Map.empty Map.empty (Some 2) (Some 1460) [] []],
              TotalHourlyCost = Some 2, TotalMonthlyCost = Some 1460 \<rparr>]"
    by (simp add: example_Project_def outputBreakdown_example_single)
  have "concat (map (\<lambda>pr. case pr_Breakdown pr of None \<Rightarrow> [] | Some b \<Rightarrow> Resources b)
          (ProjectResults ?R))
      = concat (map (\<lambda>b. case b of None \<Rightarrow> [] | Some b \<Rightarrow> Resources b)
          (map pr_Breakdown (ProjectResults ?R)))"
    by (simp add: comp_def)
  then have cat: "concat (map (\<lambda>pr. case pr_Breakdown pr of None \<Rightarrow> [] | Some b \<Rightarrow> Resources b)
          (ProjectResults ?R))
      = [Resource ''b'' Map.empty Map.empty (Some 1) (Some 730) [] [],
         Resource ''a'' Map.empty Map.empty (Some 2) (Some 1460) [] []]"
    unfolding bs by simp
  from rule have "root_Resources ?R = sortResources insertionSort
       (concat (map (\<lambda>pr. case pr_Breakdown pr of None \<Rightarrow> [] | Some b \<Rightarrow> Resources b)
          (ProjectResults ?R))) []"
    by blast
  then have flat: "root_Resources ?R
       = [Resource ''a'' Map.empty Map.empty (Some 2) (Some 1460) [] [],
          Resource ''b'' Map.empty Map.empty (Some 1) (Some 730) [] []]"
    unfolding cat by (simp add: sortResources_def insertionSort_def sortResources_less_def)
  from rule insertionSort_contract have
    "sorted (map Name (root_Resources
       (ToOutputFormat insertionSort example_HasSupportedProvider 0 ?ps)))"
    by blast
  with flat insertionSort_contract show ?thesis by blast
qed

section \<open>Properties of the summary builder\<close>

lemma contains_iff: "contains arr e \<longleftrightarrow> e \<in> set arr"
  by (induction arr) auto

lemma countType_eq: "countType counts t = counts(t \<mapsto> index_int counts t + 1)"
  by (simp add: countType_def index_int_def Let_def)

lemma BuildSummary_body_totalNoPriceResources:
  "totalNoPriceResources (BuildSummary_body hsp opts r v) =
     totalNoPriceResources v
       + (if passesProviderFilter hsp opts r \<and> s_NoPrice r then 1 else 0)"
  by (simp add: BuildSummary_body_def passesProviderFilter_def)

lemma BuildSummary_body_totalUnsupportedResources:
  "totalUnsupportedResources (BuildSummary_body hsp opts r v) =
     totalUnsupportedResources v
       + (if passesProviderFilter hsp opts r \<and> \<not> s_NoPrice r \<and> s_IsSkipped r then 1 else 0)"
  by (simp add: BuildSummary_body_def passesProviderFilter_def)

lemma BuildSummary_body_totalSupportedResources:
  "totalSupportedResources (BuildSummary_body hsp opts r v) =
     totalSupportedResources v
       + (if passesProviderFilter hsp opts r \<and> \<not> s_NoPrice r \<and> \<not> s_IsSkipped r then 1 else 0)"
  by (simp add: BuildSummary_body_def passesProviderFilter_def)

lemma BuildSummary_body_unsupportedResourceCounts:
  "unsupportedResourceCounts (BuildSummary_body hsp opts r v) =
     (if passesProviderFilter hsp opts r \<and> \<not> s_NoPrice r \<and> s_IsSkipped r
      then (unsupportedResourceCounts v)
             (s_ResourceType r \<mapsto> index_int (unsupportedResourceCounts v) (s_ResourceType r) + 1)
      else unsupportedResourceCounts v)"
  by (simp add: BuildSummary_body_def passesProviderFilter_def countType_eq)

lemma BuildSummary_body_supportedResourceCounts:
  "supportedResourceCounts (BuildSummary_body hsp opts r v) =
     (if passesProviderFilter hsp opts r \<and> \<not> s_NoPrice r \<and> \<not> s_IsSkipped r
      then (supportedResourceCounts v)
             (s_ResourceType r \<mapsto> index_int (supportedResourceCounts v) (s_ResourceType r) + 1)
      else supportedResourceCounts v)"
  by (simp add: BuildSummary_body_def passesProviderFilter_def countType_eq)

text \<open>A counter that a loop body bumps by one for the resources in a bucket.\<close>

lemma fold_counter:
  assumes "\<And>r v. c (body r v) = c v + (if P r then 1 else (0 :: go_int))"
  shows "c (fold body rs v) = c v + of_nat (length (filter P rs))"
proof (induction rs arbitrary: v)
  case Nil
  show ?case by simp
next
  case (Cons r rs)
  show ?case by (simp add: Cons.IH assms)
qed

lemma fold_counts:
  assumes "\<And>r v. m (body r v) =
      (if P r then (m v)(s_ResourceType r \<mapsto> index_int (m v) (s_ResourceType r) + 1) else m v)"
  shows "m (fold body rs v) t =
     (let n = length (filter (\<lambda>r. P r \<and> s_ResourceType r = t) rs)
      in if n = 0 then m v t else Some (index_int (m v) t + of_nat n))"
proof (induction rs arbitrary: v)
  case Nil
  show ?case by simp
next
  case (Cons r rs)
  show ?case
    by (simp add: Cons.IH assms Let_def index_int_def add.assoc add.commute)
qed


lemma BuildSummary_loop_totals:
  "totalSupportedResources (BuildSummary_loop hsp opts rs) =
     of_nat (length (filter (\<lambda>r. passesProviderFilter hsp opts r \<and> \<not> s_NoPrice r \<and> \<not> s_IsSkipped r) rs))"
  "totalUnsupportedResources (BuildSummary_loop hsp opts rs) =
     of_nat (length (filter (\<lambda>r. passesProviderFilter hsp opts r \<and> \<not> s_NoPrice r \<and> s_IsSkipped r) rs))"
  "totalNoPriceResources (BuildSummary_loop hsp opts rs) =
     of_nat (length (filter (\<lambda>r. passesProviderFilter hsp opts r \<and> s_NoPrice r) rs))"
  unfolding BuildSummary_loop_def
  by (simp_all add: fold_counter [where c = totalSupportedResources,
          OF BuildSummary_body_totalSupportedResources]
        fold_counter [where c = totalUnsupportedResources,
          OF BuildSummary_body_totalUnsupportedResources]
        fold_counter [where c = totalNoPriceResources,
          OF BuildSummary_body_totalNoPriceResources])

lemma BuildSummary_loop_counts:
  "supportedResourceCounts (BuildSummary_loop hsp opts rs) =
     spec_countByType (\<lambda>r. passesProviderFilter hsp opts r \<and> \<not> s_NoPrice r \<and> \<not> s_IsSkipped r) rs"
  "unsupportedResourceCounts (BuildSummary_loop hsp opts rs) =
     spec_countByType (\<lambda>r. passesProviderFilter hsp opts r \<and> \<not> s_NoPrice r \<and> s_IsSkipped r) rs"
  unfolding BuildSummary_loop_def
  by (rule ext,
      simp add: spec_countByType_def index_int_def conj_ac
        fold_counts [where m = supportedResourceCounts,
          OF BuildSummary_body_supportedResourceCounts]
        fold_counts [where m = unsupportedResourceCounts,
          OF BuildSummary_body_unsupportedResourceCounts])+

lemma BuildSummary_fields:
  "SupportedResourceCounts (BuildSummary hsp rs opts) =
     (if OnlyFields opts = [] \<or> ''SupportedResourceCounts'' \<in> set (OnlyFields opts)
      then Some (supportedResourceCounts (BuildSummary_loop hsp opts rs)) else None)"
  "UnsupportedResourceCounts (BuildSummary hsp rs opts) =
     (if OnlyFields opts = [] \<or> ''UnsupportedResourceCounts'' \<in> set (OnlyFields opts)
      then Some (unsupportedResourceCounts (BuildSummary_loop hsp opts rs)) else None)"
  "TotalSupportedResources (BuildSummary hsp rs opts) =
     (if OnlyFields opts = [] \<or> ''TotalSupportedResources'' \<in> set (OnlyFields opts)
      then Some (totalSupportedResources (BuildSummary_loop hsp opts rs)) else None)"
  "TotalUnsupportedResources (BuildSummary hsp rs opts) =
     (if OnlyFields opts = [] \<or> ''TotalUnsupportedResources'' \<in> set (OnlyFields opts)
      then Some (totalUnsupportedResources (BuildSummary_loop hsp opts rs)) else None)"
  "TotalNoPriceResources (BuildSummary hsp rs opts) =
     (if OnlyFields opts = [] \<or> ''TotalNoPriceResources'' \<in> set (OnlyFields opts)
      then Some (totalNoPriceResources (BuildSummary_loop hsp opts rs)) else None)"
  "TotalResources (BuildSummary hsp rs opts) =
     (if OnlyFields opts = [] \<or> ''Total'' \<in> set (OnlyFields opts)
      then Some (of_nat (length rs)) else None)"
  by (simp_all add: BuildSummary_def Let_def contains_iff)

lemma sint_of_int_go_int:
  assumes "- (2 ^ 63) \<le> k" "k < 2 ^ 63"
  shows "sint (of_int k :: go_int) = k"
  using assms by (simp add: signed_of_int signed_take_bit_int_eq_self)

lemma sint_of_nat_go_int:
  assumes "n < 2 ^ 63"
  shows "sint (of_nat n :: go_int) = int n"
proof -
  have "int n < 2 ^ 63" using assms by simp
  then show ?thesis by (simp add: signed_of_nat signed_take_bit_int_eq_self)
qed

lemma example_schema_Resource_sel [simp]:
  "s_Name (example_schema_Resource n t sk np h m) = n"
  "s_ResourceType (example_schema_Resource n t sk np h m) = t"
  "s_IsSkipped (example_schema_Resource n t sk np h m) = sk"
  "s_NoPrice (example_schema_Resource n t sk np h m) = np"
  "s_HourlyCost (example_schema_Resource n t sk np h m) = h"
  "s_MonthlyCost (example_schema_Resource n t sk np h m) = m"
  "outputResource (example_schema_Resource n t sk np h m) =
     Resource n Map.empty Map.empty h m [] []"
  by (simp_all add: example_schema_Resource_def)

text \<open>
  Claim C3, as the code has it. Building a breakdown from a resource list is building it
  from the list without its skipped resources: with a sorting function that meets the
  contract of \<^verbatim>\<open>sort.Slice\<close>, the breakdown's resources are the normalized resources that
  are not skipped, and its totals are the sums of their costs. In the summary, every count
  that is populated counts the resources that pass the provider filter, each in one
  bucket: the no-price total counts those marked no-price, whether skipped or not; the
  unsupported counts (per resource type, and in total) count those that are skipped and
  not marked no-price; the supported counts count those that are neither. So a skipped
  resource is never in a supported count, and it is counted once under its type in the
  unsupported counts and once in the unsupported total exactly when it passes the
  provider filter and is not marked no-price.
\<close>

theorem C3_skipped_resources:
  "outputBreakdown srt rs = outputBreakdown srt (filter (\<lambda>r. \<not> s_IsSkipped r) rs)
   \<and> (sort_Slice_contract srt \<longrightarrow>
        mset (Resources (outputBreakdown srt rs)) =
          mset (map outputResource (filter (\<lambda>r. \<not> s_IsSkipped r) rs))
        \<and> TotalHourlyCost (outputBreakdown srt rs) =
          Some (sum_list (List.map_filter s_HourlyCost (filter (\<lambda>r. \<not> s_IsSkipped r) rs)))
        \<and> TotalMonthlyCost (outputBreakdown srt rs) =
          Some (sum_list (List.map_filter s_MonthlyCost (filter (\<lambda>r. \<not> s_IsSkipped r) rs))))
   \<and> (\<forall>m. SupportedResourceCounts (BuildSummary hsp rs opts) = Some m \<longrightarrow>
        m = spec_countByType
              (\<lambda>r. passesProviderFilter hsp opts r \<and> \<not> s_NoPrice r \<and> \<not> s_IsSkipped r) rs)
   \<and> (\<forall>n. TotalSupportedResources (BuildSummary hsp rs opts) = Some n \<longrightarrow>
        n = of_nat (length (filter
              (\<lambda>r. passesProviderFilter hsp opts r \<and> \<not> s_NoPrice r \<and> \<not> s_IsSkipped r) rs)))
   \<and> (\<forall>m. UnsupportedResourceCounts (BuildSummary hsp rs opts) = Some m \<longrightarrow>
        m = spec_countByType
              (\<lambda>r. passesProviderFilter hsp opts r \<and> \<not> s_NoPrice r \<and> s_IsSkipped r) rs)
   \<and> (\<forall>n. TotalUnsupportedResources (BuildSummary hsp rs opts) = Some n \<longrightarrow>
        n = of_nat (length (filter
              (\<lambda>r. passesProviderFilter hsp opts r \<and> \<not> s_NoPrice r \<and> s_IsSkipped r) rs)))
   \<and> (\<forall>n. TotalNoPriceResources (BuildSummary hsp rs opts) = Some n \<longrightarrow>
        n = of_nat (length (filter (\<lambda>r. passesProviderFilter hsp opts r \<and> s_NoPrice r) rs)))"
proof -
  have "outputBreakdown srt rs = outputBreakdown srt (filter (\<lambda>r. \<not> s_IsSkipped r) rs)"
    by (rule outputBreakdown_skips)
  moreover have "sort_Slice_contract srt \<longrightarrow>
        mset (Resources (outputBreakdown srt rs)) =
          mset (map outputResource (filter (\<lambda>r. \<not> s_IsSkipped r) rs))
        \<and> TotalHourlyCost (outputBreakdown srt rs) =
          Some (sum_list (List.map_filter s_HourlyCost (filter (\<lambda>r. \<not> s_IsSkipped r) rs)))
        \<and> TotalMonthlyCost (outputBreakdown srt rs) =
          Some (sum_list (List.map_filter s_MonthlyCost (filter (\<lambda>r. \<not> s_IsSkipped r) rs)))"
    using outputBreakdown_contract [of srt rs] by blast
  moreover have "\<forall>m. SupportedResourceCounts (BuildSummary hsp rs opts) = Some m \<longrightarrow>
        m = spec_countByType
              (\<lambda>r. passesProviderFilter hsp opts r \<and> \<not> s_NoPrice r \<and> \<not> s_IsSkipped r) rs"
    by (simp add: BuildSummary_fields(1) BuildSummary_loop_counts(1) split: if_splits)
  moreover have "\<forall>m. UnsupportedResourceCounts (BuildSummary hsp rs opts) = Some m \<longrightarrow>
        m = spec_countByType
              (\<lambda>r. passesProviderFilter hsp opts r \<and> \<not> s_NoPrice r \<and> s_IsSkipped r) rs"
    by (simp add: BuildSummary_fields(2) BuildSummary_loop_counts(2) split: if_splits)
  moreover have "\<forall>n. TotalSupportedResources (BuildSummary hsp rs opts) = Some n \<longrightarrow>
        n = of_nat (length (filter
              (\<lambda>r. passesProviderFilter hsp opts r \<and> \<not> s_NoPrice r \<and> \<not> s_IsSkipped r) rs))"
    by (simp add: BuildSummary_fields(3) BuildSummary_loop_totals(1) split: if_splits)
  moreover have "\<forall>n. TotalUnsupportedResources (BuildSummary hsp rs opts) = Some n \<longrightarrow>
        n = of_nat (length (filter
              (\<lambda>r. passesProviderFilter hsp opts r \<and> \<not> s_NoPrice r \<and> s_IsSkipped r) rs))"
    by (simp add: BuildSummary_fields(4) BuildSummary_loop_totals(2) split: if_splits)
  moreover have "\<forall>n. TotalNoPriceResources (BuildSummary hsp rs opts) = Some n \<longrightarrow>
        n = of_nat (length (filter (\<lambda>r. passesProviderFilter hsp opts r \<and> s_NoPrice r) rs))"
    by (simp add: BuildSummary_fields(5) BuildSummary_loop_totals(3) split: if_splits)
  ultimately show ?thesis by blast
qed

text \<open>
  The claim as worded fails for a skipped resource that is also marked no-price, which is
  how resources that are free of charge arrive: the branch for no-price resources is
  tested first, so the resource is counted in the no-price total and in no unsupported
  count.
\<close>

theorem C3_skipped_not_counted_counterexample:
  "s_IsSkipped (example_schema_Resource ''aws_vpc.main'' ''aws_vpc'' True True None None)
   \<and> UnsupportedResourceCounts
       (BuildSummary example_HasSupportedProvider
          [example_schema_Resource ''aws_vpc.main'' ''aws_vpc'' True True None None]
          \<lparr> IncludeUnsupportedProviders = True, OnlyFields = [] \<rparr>) = Some Map.empty
   \<and> TotalUnsupportedResources
       (BuildSummary example_HasSupportedProvider
          [example_schema_Resource ''aws_vpc.main'' ''aws_vpc'' True True None None]
          \<lparr> IncludeUnsupportedProviders = True, OnlyFields = [] \<rparr>) = Some 0
   \<and> TotalNoPriceResources
       (BuildSummary example_HasSupportedProvider
          [example_schema_Resource ''aws_vpc.main'' ''aws_vpc'' True True None None]
          \<lparr> IncludeUnsupportedProviders = True, OnlyFields = [] \<rparr>) = Some 1"
  by (simp add: BuildSummary_fields BuildSummary_loop_totals BuildSummary_loop_counts
      spec_countByType_def passesProviderFilter_def fun_eq_iff)

theorem C3_skipped_resources_witness:
  "sort_Slice_contract (insertionSort :: sorter)
   \<and> mset (Resources (outputBreakdown insertionSort example_resources)) =
       mset [Resource ''b'' Map.empty Map.empty (Some 1) None [] [],
             Resource ''a'' Map.empty Map.empty (Some 2) None [] []]
   \<and> TotalHourlyCost (outputBreakdown insertionSort example_resources) = Some 3
   \<and> SupportedResourceCounts
       (BuildSummary example_HasSupportedProvider example_resources
          \<lparr> IncludeUnsupportedProviders = True, OnlyFields = [] \<rparr>)
       = Some [''aws_instance'' \<mapsto> 2]
   \<and> TotalSupportedResources
       (BuildSummary example_HasSupportedProvider example_resources
          \<lparr> IncludeUnsupportedProviders = True, OnlyFields = [] \<rparr>) = Some 2
   \<and> UnsupportedResourceCounts
       (BuildSummary example_HasSupportedProvider example_resources
          \<lparr> IncludeUnsupportedProviders = True, OnlyFields = [] \<rparr>)
       = Some [''unknown_type'' \<mapsto> 1]
   \<and> TotalUnsupportedResources
       (BuildSummary example_HasSupportedProvider example_resources
          \<lparr> IncludeUnsupportedProviders = True, OnlyFields = [] \<rparr>) = Some 1"
proof -
  let ?opts = "\<lparr> IncludeUnsupportedProviders = True, OnlyFields = [] \<rparr>"
  let ?S = "BuildSummary example_HasSupportedProvider example_resources ?opts"
  note rule = C3_skipped_resources [of insertionSort example_resources
      example_HasSupportedProvider ?opts]
  obtain ms mu ns nu where present:
    "SupportedResourceCounts ?S = Some ms" "UnsupportedResourceCounts ?S = Some mu"
    "TotalSupportedResources ?S = Some ns" "TotalUnsupportedResources ?S = Some nu"
    by (simp add: BuildSummary_fields)
  have "ms = spec_countByType
      (\<lambda>r. passesProviderFilter example_HasSupportedProvider ?opts r \<and> \<not> s_NoPrice r
          \<and> \<not> s_IsSkipped r) example_resources"
    using rule present(1) by blast
  also have "\<dots> = [''aws_instance'' \<mapsto> 2]"
    by (rule ext) (simp add: spec_countByType_def passesProviderFilter_def example_resources_def)
  finally have ms: "ms = [''aws_instance'' \<mapsto> 2]" .
  have "mu = spec_countByType
      (\<lambda>r. passesProviderFilter example_HasSupportedProvider ?opts r \<and> \<not> s_NoPrice r
          \<and> s_IsSkipped r) example_resources"
    using rule present(2) by blast
  also have "\<dots> = [''unknown_type'' \<mapsto> 1]"
    by (rule ext) (simp add: spec_countByType_def passesProviderFilter_def example_resources_def)
  finally have mu: "mu = [''unknown_type'' \<mapsto> 1]" .
  have "ns = of_nat (length (filter
      (\<lambda>r. passesProviderFilter example_HasSupportedProvider ?opts r \<and> \<not> s_NoPrice r
          \<and> \<not> s_IsSkipped r) example_resources))"
    using rule present(3) by blast
  then have ns: "ns = 2"
    by (simp add: passesProviderFilter_def example_resources_def)
  have "nu = of_nat (length (filter
      (\<lambda>r. passesProviderFilter example_HasSupportedProvider ?opts r \<and> \<not> s_NoPrice r
          \<and> s_IsSkipped r) example_resources))"
    using rule present(4) by blast
  then have nu: "nu = 1"
    by (simp add: passesProviderFilter_def example_resources_def)
  from rule insertionSort_contract
  have "mset (Resources (outputBreakdown insertionSort example_resources)) =
          mset (map outputResource (filter (\<lambda>r. \<not> s_IsSkipped r) example_resources))"
    and "TotalHourlyCost (outputBreakdown insertionSort example_resources) =
          Some (sum_list (List.map_filter s_HourlyCost
            (filter (\<lambda>r. \<not> s_IsSkipped r) example_resources)))"
    by blast+
  then have "mset (Resources (outputBreakdown insertionSort example_resources)) =
       mset [Resource ''b'' Map.empty Map.empty (Some 1) None [] [],
             Resource ''a'' Map.empty Map.empty (Some 2) None [] []]"
    and "TotalHourlyCost (outputBreakdown insertionSort example_resources) = Some 3"
    by (simp_all add: example_resources_def List.map_filter_simps)
  with present ms mu ns nu insertionSort_contract show ?thesis by simp
qed

text \<open>
  Claim C7, run on the code. Asked for the single field \<open>TotalResources\<close>, the summary
  builder returns a summary without any field, \<open>TotalResources\<close> included: the sixth test
  looks for the entry \<open>Total\<close>, where the five tests before it look for the name of the
  field they fill. Asked for \<open>TotalSupportedResources\<close>, it fills that field alone.
\<close>

theorem C7_requested_TotalResources_is_nil:
  "BuildSummary example_HasSupportedProvider example_resources
     \<lparr> IncludeUnsupportedProviders = True, OnlyFields = [''TotalResources''] \<rparr>
   = \<lparr> SupportedResourceCounts = None, UnsupportedResourceCounts = None,
       TotalSupportedResources = None, TotalUnsupportedResources = None,
       TotalNoPriceResources = None, TotalResources = None \<rparr>
   \<and> BuildSummary example_HasSupportedProvider example_resources
     \<lparr> IncludeUnsupportedProviders = True, OnlyFields = [''TotalSupportedResources''] \<rparr>
   = \<lparr> SupportedResourceCounts = None, UnsupportedResourceCounts = None,
       TotalSupportedResources = Some 2, TotalUnsupportedResources = None,
       TotalNoPriceResources = None, TotalResources = None \<rparr>"
  by (simp add: Summary.equality BuildSummary_fields BuildSummary_loop_totals
      passesProviderFilter_def example_resources_def)

text \<open>
  Claim C8. Whenever the summary has a \<open>TotalResources\<close> field, its value is the length of
  the resource list as a Go int, whatever the provider test and the options are; the list
  of a Go slice is shorter than \<open>2 ^ 63\<close>, and then the signed value of the field is that
  length. With no field selection the field is there.
\<close>

theorem C8_total_resources:
  "(\<forall>n. TotalResources (BuildSummary hsp rs opts) = Some n \<longrightarrow>
      n = of_nat (length rs) \<and> (length rs < 2 ^ 63 \<longrightarrow> sint n = int (length rs)))
   \<and> (OnlyFields opts = [] \<longrightarrow>
        TotalResources (BuildSummary hsp rs opts) = Some (of_nat (length rs)))"
  by (simp add: BuildSummary_fields(6) sint_of_nat_go_int)

theorem C8_total_resources_witness:
  "length example_resources < 2 ^ 63
   \<and> OnlyFields \<lparr> IncludeUnsupportedProviders = False, OnlyFields = [] \<rparr> = []
   \<and> TotalResources
       (BuildSummary example_HasSupportedProvider example_resources
          \<lparr> IncludeUnsupportedProviders = False, OnlyFields = [] \<rparr>) = Some 3
   \<and> sint (3 :: go_int) = int (length example_resources)
   \<and> TotalSupportedResources
       (BuildSummary example_HasSupportedProvider example_resources
          \<lparr> IncludeUnsupportedProviders = False, OnlyFields = [] \<rparr>) = Some 2
   \<and> TotalUnsupportedResources
       (BuildSummary example_HasSupportedProvider example_resources
          \<lparr> IncludeUnsupportedProviders = False, OnlyFields = [] \<rparr>) = Some 0
   \<and> TotalNoPriceResources
       (BuildSummary example_HasSupportedProvider example_resources
          \<lparr> IncludeUnsupportedProviders = False, OnlyFields = [] \<rparr>) = Some 0"
proof -
  let ?opts = "\<lparr> IncludeUnsupportedProviders = False, OnlyFields = [] \<rparr>"
  let ?S = "BuildSummary example_HasSupportedProvider example_resources ?opts"
  note rule = C8_total_resources [of example_HasSupportedProvider example_resources ?opts]
  have len: "length example_resources = 3" by (simp add: example_resources_def)
  have sel: "OnlyFields ?opts = []" by simp
  from rule sel have "TotalResources ?S = Some (of_nat (length example_resources))"
    by blast
  then have total: "TotalResources ?S = Some 3" by (simp only: len of_nat_numeral)
  have bound: "length example_resources < 2 ^ 63" by (simp only: len) simp
  from rule total bound have signed: "sint (3 :: go_int) = int (length example_resources)"
    by blast
  have provider: "\<not> example_HasSupportedProvider ''unknown_type''"
    "example_HasSupportedProvider ''aws_instance''"
    by (simp_all add: example_HasSupportedProvider_def)
  have buckets: "TotalSupportedResources ?S = Some 2"
    "TotalUnsupportedResources ?S = Some 0"
    "TotalNoPriceResources ?S = Some 0"
    by (simp_all add: BuildSummary_fields BuildSummary_loop_totals passesProviderFilter_def
        example_resources_def provider)
  from bound sel total signed buckets show ?thesis by blast
qed

text \<open>
  Claim C10. The summary has a \<open>TotalResources\<close> field exactly when the field selection is
  empty or has the entry \<open>Total\<close>; a selection with the entry \<open>TotalResources\<close> and without
  the entry \<open>Total\<close> leaves the field nil.
\<close>

theorem C10_total_selector:
  "(TotalResources (BuildSummary hsp rs opts) \<noteq> None \<longleftrightarrow>
      OnlyFields opts = [] \<or> ''Total'' \<in> set (OnlyFields opts))
   \<and> (''TotalResources'' \<in> set (OnlyFields opts) \<and> ''Total'' \<notin> set (OnlyFields opts) \<longrightarrow>
        TotalResources (BuildSummary hsp rs opts) = None)"
  by (auto simp: BuildSummary_fields(6))

theorem C10_total_selector_witness:
  "''TotalResources'' \<in> set [''TotalResources'']
   \<and> ''Total'' \<notin> set [''TotalResources'']
   \<and> TotalResources
       (BuildSummary example_HasSupportedProvider example_resources
          \<lparr> IncludeUnsupportedProviders = False, OnlyFields = [''TotalResources''] \<rparr>) = None
   \<and> TotalResources
       (BuildSummary example_HasSupportedProvider example_resources
          \<lparr> IncludeUnsupportedProviders = False, OnlyFields = [''Total''] \<rparr>) \<noteq> None
   \<and> TotalResources
       (BuildSummary example_HasSupportedProvider example_resources
          \<lparr> IncludeUnsupportedProviders = False, OnlyFields = [] \<rparr>) \<noteq> None"
  using C10_total_selector [of example_HasSupportedProvider example_resources
      "\<lparr> IncludeUnsupportedProviders = False, OnlyFields = [''TotalResources''] \<rparr>"]
    C10_total_selector [of example_HasSupportedProvider example_resources
      "\<lparr> IncludeUnsupportedProviders = False, OnlyFields = [''Total''] \<rparr>"]
    C10_total_selector [of example_HasSupportedProvider example_resources
      "\<lparr> IncludeUnsupportedProviders = False, OnlyFields = [] \<rparr>"]
  by simp

section \<open>Properties of the summary merger\<close>

lemma addIntPtrs_simps:
  "addIntPtrs None None = None"
  "addIntPtrs (Some a) None = Some a"
  "addIntPtrs None (Some b) = Some b"
  "addIntPtrs (Some a) (Some b) = Some (a + b)"
  by (simp_all add: addIntPtrs_def)

lemma copy_map: "(\<lambda>k. case a k of None \<Rightarrow> None | Some v \<Rightarrow> Some v) = a"
  by (rule ext) (simp split: option.split)

lemma mergeCounts_simps:
  "mergeCounts None None = None"
  "mergeCounts (Some a) None = Some a"
  "mergeCounts None (Some b) = Some b"
  "mergeCounts (Some a) (Some b) =
     Some (\<lambda>k. case b k of None \<Rightarrow> a k | Some v \<Rightarrow> Some (index_int a k + v))"
proof -
  show "mergeCounts None None = None" by (simp add: mergeCounts_def)
  show "mergeCounts (Some a) None = Some a" by (simp add: mergeCounts_def copy_map)
  have "(\<lambda>k. case b k of None \<Rightarrow> None | Some v \<Rightarrow> Some (index_int Map.empty k + v)) = b"
    by (rule ext) (simp add: index_int_def split: option.split)
  then show "mergeCounts None (Some b) = Some b" by (simp add: mergeCounts_def)
  show "mergeCounts (Some a) (Some b) =
     Some (\<lambda>k. case b k of None \<Rightarrow> a k | Some v \<Rightarrow> Some (index_int a k + v))"
    by (simp add: mergeCounts_def, rule ext, simp add: index_int_def split: option.split)
qed

text \<open>A field of the merged summary is the fold of its own merge operation.\<close>

lemma fold_MergeSummaries_body_field:
  assumes "\<And>s m. f (MergeSummaries_body s m) =
      (case s of None \<Rightarrow> f m | Some s' \<Rightarrow> op (f m) (f s'))"
    and "\<And>acc. op acc None = acc"
  shows "f (fold MergeSummaries_body ss m) =
      fold (\<lambda>v acc. op acc v) (map (\<lambda>s. Option.bind s f) ss) (f m)"
proof (induction ss arbitrary: m)
  case Nil
  show ?case by simp
next
  case (Cons s ss)
  show ?case by (cases s) (simp_all add: Cons.IH assms)
qed

lemma addIntPtrs_None_right: "addIntPtrs acc None = acc"
  by (cases acc) (simp_all add: addIntPtrs_simps)

lemma mergeCounts_None_right: "mergeCounts acc None = acc"
  by (cases acc) (simp_all add: mergeCounts_simps)

lemma fold_addIntPtrs_Some:
  "fold (\<lambda>v acc. addIntPtrs acc v) vs (Some a) = Some (a + sum_list (present vs))"
proof (induction vs arbitrary: a)
  case Nil
  show ?case by simp
next
  case (Cons v vs)
  show ?case
    by (cases v) (simp_all add: addIntPtrs_simps Cons.IH add.assoc)
qed

lemma fold_addIntPtrs_None:
  "fold (\<lambda>v acc. addIntPtrs acc v) vs None = spec_sumPresent (present vs)"
proof (induction vs)
  case Nil
  show ?case by (simp add: spec_sumPresent_def)
next
  case (Cons v vs)
  show ?case
  proof (cases v)
    case None
    show ?thesis unfolding None using Cons.IH by (simp add: addIntPtrs_simps)
  next
    case (Some x)
    show ?thesis
      unfolding Some by (simp add: addIntPtrs_simps fold_addIntPtrs_Some spec_sumPresent_def)
  qed
qed

lemma fold_mergeCounts_Some:
  "fold (\<lambda>v acc. mergeCounts acc v) vs (Some a) =
     Some (\<lambda>k. if present (map (\<lambda>m. m k) (present vs)) = [] then a k
                else Some (index_int a k
                        + sum_list (present (map (\<lambda>m. m k) (present vs)))))"
proof (induction vs arbitrary: a)
  case Nil
  show ?case by simp
next
  case (Cons v vs)
  show ?case
  proof (cases v)
    case None
    show ?thesis unfolding None by (simp add: mergeCounts_simps Cons.IH cong: if_cong)
  next
    case (Some b)
    show ?thesis
      unfolding Some
      by (simp add: mergeCounts_simps Cons.IH cong: if_cong)
        (rule ext, simp add: index_int_def add.assoc split: option.split)
  qed
qed

lemma fold_mergeCounts_None:
  "fold (\<lambda>v acc. mergeCounts acc v) vs None = spec_mergeMaps (present vs)"
proof (induction vs)
  case Nil
  show ?case by (simp add: spec_mergeMaps_def)
next
  case (Cons v vs)
  show ?case
  proof (cases v)
    case None
    show ?thesis unfolding None using Cons.IH by (simp add: mergeCounts_simps)
  next
    case (Some b)
    show ?thesis
      unfolding Some
      by (simp add: mergeCounts_simps fold_mergeCounts_Some
          spec_mergeMaps_def)
        (rule ext, simp add: index_int_def spec_sumPresent_def split: option.split)
  qed
qed

lemma MergeSummaries_body_None:
  "SupportedResourceCounts (MergeSummaries_body None m) = SupportedResourceCounts m"
  "UnsupportedResourceCounts (MergeSummaries_body None m) = UnsupportedResourceCounts m"
  "TotalSupportedResources (MergeSummaries_body None m) = TotalSupportedResources m"
  "TotalUnsupportedResources (MergeSummaries_body None m) = TotalUnsupportedResources m"
  "TotalNoPriceResources (MergeSummaries_body None m) = TotalNoPriceResources m"
  "TotalResources (MergeSummaries_body None m) = TotalResources m"
  by (simp_all add: MergeSummaries_body_def)

lemma MergeSummaries_body_Some:
  "SupportedResourceCounts (MergeSummaries_body (Some s) m) =
     mergeCounts (SupportedResourceCounts m) (SupportedResourceCounts s)"
  "UnsupportedResourceCounts (MergeSummaries_body (Some s) m) =
     mergeCounts (UnsupportedResourceCounts m) (UnsupportedResourceCounts s)"
  "TotalSupportedResources (MergeSummaries_body (Some s) m) =
     addIntPtrs (TotalSupportedResources m) (TotalSupportedResources s)"
  "TotalUnsupportedResources (MergeSummaries_body (Some s) m) =
     addIntPtrs (TotalUnsupportedResources m) (TotalUnsupportedResources s)"
  "TotalNoPriceResources (MergeSummaries_body (Some s) m) =
     addIntPtrs (TotalNoPriceResources m) (TotalNoPriceResources s)"
  "TotalResources (MergeSummaries_body (Some s) m) =
     addIntPtrs (TotalResources m) (TotalResources s)"
  by (simp_all add: MergeSummaries_body_def)

lemma MergeSummaries_body_fields:
  "SupportedResourceCounts (MergeSummaries_body s m) =
     (case s of None \<Rightarrow> SupportedResourceCounts m
      | Some s' \<Rightarrow> mergeCounts (SupportedResourceCounts m) (SupportedResourceCounts s'))"
  "UnsupportedResourceCounts (MergeSummaries_body s m) =
     (case s of None \<Rightarrow> UnsupportedResourceCounts m
      | Some s' \<Rightarrow> mergeCounts (UnsupportedResourceCounts m) (UnsupportedResourceCounts s'))"
  "TotalSupportedResources (MergeSummaries_body s m) =
     (case s of None \<Rightarrow> TotalSupportedResources m
      | Some s' \<Rightarrow> addIntPtrs (TotalSupportedResources m) (TotalSupportedResources s'))"
  "TotalUnsupportedResources (MergeSummaries_body s m) =
     (case s of None \<Rightarrow> TotalUnsupportedResources m
      | Some s' \<Rightarrow> addIntPtrs (TotalUnsupportedResources m) (TotalUnsupportedResources s'))"
  "TotalNoPriceResources (MergeSummaries_body s m) =
     (case s of None \<Rightarrow> TotalNoPriceResources m
      | Some s' \<Rightarrow> addIntPtrs (TotalNoPriceResources m) (TotalNoPriceResources s'))"
  "TotalResources (MergeSummaries_body s m) =
     (case s of None \<Rightarrow> TotalResources m
      | Some s' \<Rightarrow> addIntPtrs (TotalResources m) (TotalResources s'))"
  by (cases s, simp_all add: MergeSummaries_body_None MergeSummaries_body_Some)+

lemma present_Nil_iff: "present vs = [] \<longleftrightarrow> (\<forall>v \<in> set vs. v = None)"
  by (induction vs) (auto split: option.split)

lemma present_field_Nil_iff:
  "present (map (\<lambda>s. Option.bind s f) ss) = [] \<longleftrightarrow> (\<forall>s. Some s \<in> set ss \<longrightarrow> f s = None)"
proof -
  have "Option.bind v f = None \<longleftrightarrow> (\<forall>s. v = Some s \<longrightarrow> f s = None)" for v
    by (cases v) simp_all
  then have "(\<forall>v \<in> set ss. Option.bind v f = None) \<longleftrightarrow> (\<forall>s. Some s \<in> set ss \<longrightarrow> f s = None)"
    by blast
  then show ?thesis by (simp add: present_Nil_iff)
qed

lemma spec_sumPresent_None_iff: "spec_sumPresent vs = None \<longleftrightarrow> vs = []"
  by (simp add: spec_sumPresent_def)

lemma spec_mergeMaps_None_iff: "spec_mergeMaps ms = None \<longleftrightarrow> ms = []"
  by (simp add: spec_mergeMaps_def)

lemma spec_mergeMaps_dom:
  assumes "spec_mergeMaps ms = Some m"
  shows "dom m = (\<Union>x \<in> set ms. dom x)"
    and "m k = spec_sumPresent (present (map (\<lambda>x. x k) ms))"
proof -
  from assms have m: "m = (\<lambda>k. spec_sumPresent (present (map (\<lambda>x. x k) ms)))"
    by (simp add: spec_mergeMaps_def split: if_splits)
  show "m k = spec_sumPresent (present (map (\<lambda>x. x k) ms))" by (simp add: m)
  show "dom m = (\<Union>x \<in> set ms. dom x)"
    by (auto simp: m dom_def spec_sumPresent_None_iff present_Nil_iff)
qed

lemma of_int_sum_list_sint:
  "of_int (sum_list (map sint vs)) = sum_list (vs :: go_int list)"
  by (induction vs) simp_all

lemma spec_sumPresent_signed:
  assumes "spec_sumPresent vs = Some n"
    and "- (2 ^ 63) \<le> sum_list (map sint vs)" "sum_list (map sint vs) < 2 ^ 63"
  shows "sint n = sum_list (map sint vs)"
proof -
  from assms(1) have "n = sum_list vs" by (simp add: spec_sumPresent_def split: if_splits)
  then have "n = of_int (sum_list (map sint vs))" by (simp only: of_int_sum_list_sint)
  then show ?thesis using assms(2,3) by (simp only: sint_of_int_go_int)
qed

lemma spec_mergeMaps_disjoint:
  assumes "dom ma \<inter> dom mb = {}"
  shows "spec_mergeMaps [ma, mb] = Some (ma ++ mb)"
proof -
  have "spec_sumPresent (present [ma k, mb k]) = (ma ++ mb) k" for k
  proof (cases "ma k")
    case None
    then show ?thesis by (simp add: spec_sumPresent_def map_add_def split: option.split)
  next
    case (Some a)
    then have "mb k = None" using assms by auto
    with Some show ?thesis by (simp add: spec_sumPresent_def map_add_def)
  qed
  then show ?thesis by (simp add: spec_mergeMaps_def)
qed

lemma addIntPtrs_None_left: "addIntPtrs None x = x"
  by (cases x) (simp_all add: addIntPtrs_simps)

lemma mergeCounts_None_left: "mergeCounts None x = x"
  by (cases x) (simp_all add: mergeCounts_simps)

lemma MergeSummaries_singleton: "MergeSummaries [Some s] = s"
  by (cases s)
    (simp add: MergeSummaries_def MergeSummaries_body_def addIntPtrs_None_left
      mergeCounts_None_left)

lemma MergeSummaries_all_nil:
  assumes "\<forall>s \<in> set ss. s = None"
  shows "MergeSummaries ss = emptySummary"
proof -
  have "fold MergeSummaries_body ss m = m" for m
    using assms by (induction ss) (simp_all add: MergeSummaries_body_def)
  then show ?thesis by (simp add: MergeSummaries_def emptySummary_def)
qed


lemma MergeSummaries_SupportedResourceCounts:
  "SupportedResourceCounts (MergeSummaries ss) =
     spec_mergeMaps (present (map (\<lambda>s. Option.bind s SupportedResourceCounts) ss))"
proof -
  have "SupportedResourceCounts (fold MergeSummaries_body ss m) =
      fold (\<lambda>v acc. mergeCounts acc v) (map (\<lambda>s. Option.bind s SupportedResourceCounts) ss) (SupportedResourceCounts m)" for m
    by (rule fold_MergeSummaries_body_field [where f = SupportedResourceCounts and op = mergeCounts,
          OF MergeSummaries_body_fields(1) mergeCounts_None_right])
  then show ?thesis by (simp add: MergeSummaries_def fold_mergeCounts_None)
qed

lemma MergeSummaries_UnsupportedResourceCounts:
  "UnsupportedResourceCounts (MergeSummaries ss) =
     spec_mergeMaps (present (map (\<lambda>s. Option.bind s UnsupportedResourceCounts) ss))"
proof -
  have "UnsupportedResourceCounts (fold MergeSummaries_body ss m) =
      fold (\<lambda>v acc. mergeCounts acc v) (map (\<lambda>s. Option.bind s UnsupportedResourceCounts) ss) (UnsupportedResourceCounts m)" for m
    by (rule fold_MergeSummaries_body_field [where f = UnsupportedResourceCounts and op = mergeCounts,
          OF MergeSummaries_body_fields(2) mergeCounts_None_right])
  then show ?thesis by (simp add: MergeSummaries_def fold_mergeCounts_None)
qed

lemma MergeSummaries_TotalSupportedResources:
  "TotalSupportedResources (MergeSummaries ss) =
     spec_sumPresent (present (map (\<lambda>s. Option.bind s TotalSupportedResources) ss))"
proof -
  have "TotalSupportedResources (fold MergeSummaries_body ss m) =
      fold (\<lambda>v acc. addIntPtrs acc v) (map (\<lambda>s. Option.bind s TotalSupportedResources) ss) (TotalSupportedResources m)" for m
    by (rule fold_MergeSummaries_body_field [where f = TotalSupportedResources and op = addIntPtrs,
          OF MergeSummaries_body_fields(3) addIntPtrs_None_right])
  then show ?thesis by (simp add: MergeSummaries_def fold_addIntPtrs_None)
qed

lemma MergeSummaries_TotalUnsupportedResources:
  "TotalUnsupportedResources (MergeSummaries ss) =
     spec_sumPresent (present (map (\<lambda>s. Option.bind s TotalUnsupportedResources) ss))"
proof -
  have "TotalUnsupportedResources (fold MergeSummaries_body ss m) =
      fold (\<lambda>v acc. addIntPtrs acc v) (map (\<lambda>s. Option.bind s TotalUnsupportedResources) ss) (TotalUnsupportedResources m)" for m
    by (rule fold_MergeSummaries_body_field [where f = TotalUnsupportedResources and op = addIntPtrs,
          OF MergeSummaries_body_fields(4) addIntPtrs_None_right])
  then show ?thesis by (simp add: MergeSummaries_def fold_addIntPtrs_None)
qed

lemma MergeSummaries_TotalNoPriceResources:
  "TotalNoPriceResources (MergeSummaries ss) =
     spec_sumPresent (present (map (\<lambda>s. Option.bind s TotalNoPriceResources) ss))"
proof -
  have "TotalNoPriceResources (fold MergeSummaries_body ss m) =
      fold (\<lambda>v acc. addIntPtrs acc v) (map (\<lambda>s. Option.bind s TotalNoPriceResources) ss) (TotalNoPriceResources m)" for m
    by (rule fold_MergeSummaries_body_field [where f = TotalNoPriceResources and op = addIntPtrs,
          OF MergeSummaries_body_fields(5) addIntPtrs_None_right])
  then show ?thesis by (simp add: MergeSummaries_def fold_addIntPtrs_None)
qed

lemma MergeSummaries_TotalResources:
  "TotalResources (MergeSummaries ss) =
     spec_sumPresent (present (map (\<lambda>s. Option.bind s TotalResources) ss))"
proof -
  have "TotalResources (fold MergeSummaries_body ss m) =
      fold (\<lambda>v acc. addIntPtrs acc v) (map (\<lambda>s. Option.bind s TotalResources) ss) (TotalResources m)" for m
    by (rule fold_MergeSummaries_body_field [where f = TotalResources and op = addIntPtrs,
          OF MergeSummaries_body_fields(6) addIntPtrs_None_right])
  then show ?thesis by (simp add: MergeSummaries_def fold_addIntPtrs_None)
qed

text \<open>
  Claim C2. For every list of summaries, nil entries skipped, each field of the merged
  summary is the merge of the values of that field that are present in the summaries of
  the list: a scalar field is the sum of the present values, a map field sends a key to
  the sum of the present maps' counts at that key. A merged field is nil exactly when the
  field is nil in every summary of the list that is not nil. The keys of a merged map are
  the union of the keys of the present maps; two maps without a common key merge to their
  union. Sums are sums of Go ints: when the sum of the signed values fits a Go int, the
  signed value of the merged scalar is that sum. Merging the list of one summary returns
  that summary, and merging a list of nils returns the summary with every field nil.
\<close>

theorem C2_MergeSummaries:
  "SupportedResourceCounts (MergeSummaries ss) =
     spec_mergeMaps (present (map (\<lambda>s. Option.bind s SupportedResourceCounts) ss))
   \<and> UnsupportedResourceCounts (MergeSummaries ss) =
     spec_mergeMaps (present (map (\<lambda>s. Option.bind s UnsupportedResourceCounts) ss))
   \<and> TotalSupportedResources (MergeSummaries ss) =
     spec_sumPresent (present (map (\<lambda>s. Option.bind s TotalSupportedResources) ss))
   \<and> TotalUnsupportedResources (MergeSummaries ss) =
     spec_sumPresent (present (map (\<lambda>s. Option.bind s TotalUnsupportedResources) ss))
   \<and> TotalNoPriceResources (MergeSummaries ss) =
     spec_sumPresent (present (map (\<lambda>s. Option.bind s TotalNoPriceResources) ss))
   \<and> TotalResources (MergeSummaries ss) =
     spec_sumPresent (present (map (\<lambda>s. Option.bind s TotalResources) ss))
   \<and> (spec_mergeMaps (present (map (\<lambda>s. Option.bind s counts) ss)) = None \<longleftrightarrow>
        (\<forall>s. Some s \<in> set ss \<longrightarrow> counts s = None))
   \<and> (spec_sumPresent (present (map (\<lambda>s. Option.bind s scalar) ss)) = None \<longleftrightarrow>
        (\<forall>s. Some s \<in> set ss \<longrightarrow> scalar s = None))
   \<and> (\<forall>m. spec_mergeMaps ms = Some m \<longrightarrow>
        dom m = (\<Union>x \<in> set ms. dom x)
        \<and> (\<forall>k. m k = spec_sumPresent (present (map (\<lambda>x. x k) ms))))
   \<and> (\<forall>n. spec_sumPresent vs = Some n
          \<and> - (2 ^ 63) \<le> sum_list (map sint vs) \<and> sum_list (map sint vs) < 2 ^ 63 \<longrightarrow>
        n = sum_list vs \<and> sint n = sum_list (map sint vs))
   \<and> (dom ma \<inter> dom mb = {} \<longrightarrow> spec_mergeMaps [ma, mb] = Some (ma ++ mb))
   \<and> MergeSummaries [Some s] = s
   \<and> ((\<forall>s \<in> set ss. s = None) \<longrightarrow> MergeSummaries ss = emptySummary)"
proof -
  have signed: "\<forall>n. spec_sumPresent vs = Some n
          \<and> - (2 ^ 63) \<le> sum_list (map sint vs) \<and> sum_list (map sint vs) < 2 ^ 63 \<longrightarrow>
        n = sum_list vs \<and> sint n = sum_list (map sint vs)"
    using spec_sumPresent_signed [of vs]
    by (auto simp: spec_sumPresent_def split: if_splits)
  have keys: "\<forall>m. spec_mergeMaps ms = Some m \<longrightarrow>
        dom m = (\<Union>x \<in> set ms. dom x)
        \<and> (\<forall>k. m k = spec_sumPresent (present (map (\<lambda>x. x k) ms)))"
  proof (intro allI impI conjI)
    fix m k
    assume "spec_mergeMaps ms = Some m"
    then show "dom m = (\<Union>x \<in> set ms. dom x)"
      and "m k = spec_sumPresent (present (map (\<lambda>x. x k) ms))"
      by (rule spec_mergeMaps_dom)+
  qed
  have nil_counts: "spec_mergeMaps (present (map (\<lambda>s. Option.bind s counts) ss)) = None \<longleftrightarrow>
        (\<forall>s. Some s \<in> set ss \<longrightarrow> counts s = None)"
    by (simp only: spec_mergeMaps_None_iff present_field_Nil_iff)
  have nil_scalar: "spec_sumPresent (present (map (\<lambda>s. Option.bind s scalar) ss)) = None \<longleftrightarrow>
        (\<forall>s. Some s \<in> set ss \<longrightarrow> scalar s = None)"
    by (simp only: spec_sumPresent_None_iff present_field_Nil_iff)
  have disjoint: "dom ma \<inter> dom mb = {} \<longrightarrow> spec_mergeMaps [ma, mb] = Some (ma ++ mb)"
    by (intro impI) (rule spec_mergeMaps_disjoint)
  have nils: "(\<forall>s \<in> set ss. s = None) \<longrightarrow> MergeSummaries ss = emptySummary"
    by (intro impI) (rule MergeSummaries_all_nil)
  show ?thesis
    by (intro conjI MergeSummaries_SupportedResourceCounts
        MergeSummaries_UnsupportedResourceCounts MergeSummaries_TotalSupportedResources
        MergeSummaries_TotalUnsupportedResources MergeSummaries_TotalNoPriceResources
        MergeSummaries_TotalResources nil_counts nil_scalar keys signed disjoint
        MergeSummaries_singleton nils)
qed

theorem C2_MergeSummaries_witness:
  "SupportedResourceCounts
     (MergeSummaries [Some example_Summary_a, None, Some example_Summary_b])
     = Some [''aws_instance'' \<mapsto> 3, ''google_compute_instance'' \<mapsto> 1]
   \<and> UnsupportedResourceCounts
     (MergeSummaries [Some example_Summary_a, None, Some example_Summary_b]) = None
   \<and> TotalSupportedResources
     (MergeSummaries [Some example_Summary_a, None, Some example_Summary_b]) = Some 4
   \<and> TotalUnsupportedResources
     (MergeSummaries [Some example_Summary_a, None, Some example_Summary_b]) = None
   \<and> TotalNoPriceResources
     (MergeSummaries [Some example_Summary_a, None, Some example_Summary_b]) = Some 0
   \<and> TotalResources
     (MergeSummaries [Some example_Summary_a, None, Some example_Summary_b]) = Some 3
   \<and> dom [''aws_instance'' \<mapsto> (2 :: go_int)]
       \<inter> dom [''google_compute_instance'' \<mapsto> (1 :: go_int)] = {}
   \<and> spec_mergeMaps [ [''aws_instance'' \<mapsto> 2], [''google_compute_instance'' \<mapsto> 1]]
     = Some ([''aws_instance'' \<mapsto> 2] ++ [''google_compute_instance'' \<mapsto> 1])
   \<and> spec_sumPresent [2, 2] = Some 4
   \<and> sint (4 :: go_int) = sum_list (map sint [2, 2 :: go_int])
   \<and> MergeSummaries [Some example_Summary_a] = example_Summary_a
   \<and> MergeSummaries [None, None] = emptySummary"
proof -
  let ?ss = "[Some example_Summary_a, None, Some example_Summary_b]"
  let ?ma = "[''aws_instance'' \<mapsto> (2 :: go_int)]"
  let ?mb = "[''google_compute_instance'' \<mapsto> (1 :: go_int)]"
  note merged = C2_MergeSummaries [of ?ss UnsupportedResourceCounts TotalUnsupportedResources
      "[?ma, ?mb]" "[2, 2]" ?ma ?mb example_Summary_a]
  note nils = C2_MergeSummaries [of "[None, None]" UnsupportedResourceCounts
      TotalUnsupportedResources "[]" "[]" Map.empty Map.empty example_Summary_a]
  have supported: "SupportedResourceCounts (MergeSummaries ?ss)
      = Some [''aws_instance'' \<mapsto> 3, ''google_compute_instance'' \<mapsto> 1]"
    unfolding merged [THEN conjunct1]
    by (simp add: example_Summary_a_def example_Summary_b_def spec_mergeMaps_def
        spec_sumPresent_def fun_eq_iff)
  have unsupported: "UnsupportedResourceCounts (MergeSummaries ?ss) = None"
    unfolding merged [THEN conjunct2, THEN conjunct1]
    by (simp add: example_Summary_a_def example_Summary_b_def spec_mergeMaps_def)
  have t1: "TotalSupportedResources (MergeSummaries ?ss) = Some 4"
    unfolding merged [THEN conjunct2, THEN conjunct2, THEN conjunct1]
    by (simp add: example_Summary_a_def example_Summary_b_def spec_sumPresent_def)
  have t2: "TotalUnsupportedResources (MergeSummaries ?ss) = None"
    unfolding merged [THEN conjunct2, THEN conjunct2, THEN conjunct2, THEN conjunct1]
    by (simp add: example_Summary_a_def example_Summary_b_def spec_sumPresent_def)
  have t3: "TotalNoPriceResources (MergeSummaries ?ss) = Some 0"
    unfolding merged [THEN conjunct2, THEN conjunct2, THEN conjunct2, THEN conjunct2,
        THEN conjunct1]
    by (simp add: example_Summary_a_def example_Summary_b_def spec_sumPresent_def)
  have t4: "TotalResources (MergeSummaries ?ss) = Some 3"
    unfolding merged [THEN conjunct2, THEN conjunct2, THEN conjunct2, THEN conjunct2,
        THEN conjunct2, THEN conjunct1]
    by (simp add: example_Summary_a_def example_Summary_b_def spec_sumPresent_def)
  have disjoint: "dom ?ma \<inter> dom ?mb = {}" by simp
  with merged have union: "spec_mergeMaps [?ma, ?mb] = Some (?ma ++ ?mb)" by blast
  have sum: "spec_sumPresent [2, 2] = Some 4" by (simp add: spec_sumPresent_def)
  have range: "- (2 ^ 63) \<le> sum_list (map sint [2, 2 :: go_int])"
    "sum_list (map sint [2, 2 :: go_int]) < 2 ^ 63"
    by simp_all
  from merged sum range have signed: "sint (4 :: go_int) = sum_list (map sint [2, 2 :: go_int])"
    by blast
  from merged have single: "MergeSummaries [Some example_Summary_a] = example_Summary_a"
    by blast
  have "\<forall>s \<in> set [None, None :: Summary option]. s = None" by simp
  with nils have empty: "MergeSummaries [None, None] = emptySummary" by blast
  from supported unsupported t1 t2 t3 t4 disjoint union sum signed single empty
  show ?thesis by (intro conjI)
qed

section \<open>Properties of the message about unsupported resource types\<close>

lemma len_map_facts:
  assumes "finite (dom m)" "card (dom m) < 2 ^ 63"
  shows "sint (len_map m) = int (card (dom m))"
    and "len_map m = 0 \<longleftrightarrow> dom m = {}"
    and "len_map m = 1 \<longleftrightarrow> card (dom m) = 1"
proof -
  show s: "sint (len_map m) = int (card (dom m))"
    unfolding len_map_def using assms(2) by (rule sint_of_nat_go_int)
  have "len_map m = 0 \<longleftrightarrow> sint (len_map m) = sint (0 :: go_int)"
    by (rule word_eq_iff_signed)
  then show "len_map m = 0 \<longleftrightarrow> dom m = {}"
    unfolding s using assms(1) by simp
  have "len_map m = 1 \<longleftrightarrow> sint (len_map m) = sint (1 :: go_int)"
    by (rule word_eq_iff_signed)
  then show "len_map m = 1 \<longleftrightarrow> card (dom m) = 1"
    unfolding s by simp
qed

lemma fold_append_lines:
  "fold (\<lambda>t msg. msg @ line t) visited msg = msg @ concat (map line visited)"
  by (induction visited arbitrary: msg) simp_all

lemma fold_ToOutputFormat_body_summaries:
  "map pr_Summary (outProjectResults (fold (ToOutputFormat_body srt hsp) ps v)) =
     map pr_Summary (outProjectResults v)
       @ map (\<lambda>p. Some (BuildSummary hsp (p_Resources p)
                \<lparr> IncludeUnsupportedProviders = False,
                  OnlyFields = [''UnsupportedResourceCounts''] \<rparr>)) ps"
  by (induction ps arbitrary: v) (simp_all add: ToOutputFormat_body_def Let_def)

lemma MergedSummary_ToOutputFormat:
  "MergedSummary (ToOutputFormat srt hsp now ps) =
     MergeSummaries (map (\<lambda>p. Some (BuildSummary hsp (p_Resources p)
                \<lparr> IncludeUnsupportedProviders = False,
                  OnlyFields = [''UnsupportedResourceCounts''] \<rparr>)) ps)"
  by (simp add: MergedSummary_def ToOutputFormat_def Let_def fold_ToOutputFormat_body_summaries)

lemma example_unsupported_none:
  "UnsupportedResourceCounts
     (MergedSummary (ToOutputFormat insertionSort example_HasSupportedProvider 0
        [example_Project ''p''
           [example_schema_Resource ''aws_instance.web'' ''aws_instance'' False False
              (Some 1) (Some 730)]]))
   = Some Map.empty"
  by (simp add: MergedSummary_ToOutputFormat MergeSummaries_UnsupportedResourceCounts
      example_Project_def BuildSummary_fields BuildSummary_loop_counts spec_mergeMaps_def
      spec_countByType_def spec_sumPresent_def fun_eq_iff)

lemma example_unsupported_two:
  "UnsupportedResourceCounts
     (MergedSummary (ToOutputFormat insertionSort example_HasSupportedProvider 0
        [example_Project ''p'' example_skipped_resources]))
   = Some [''aws_new_thing'' \<mapsto> 2, ''google_new_thing'' \<mapsto> 1]"
  by (simp add: MergedSummary_ToOutputFormat MergeSummaries_UnsupportedResourceCounts
      example_Project_def BuildSummary_fields BuildSummary_loop_counts spec_mergeMaps_def
      spec_countByType_def spec_sumPresent_def fun_eq_iff passesProviderFilter_def
      example_HasSupportedProvider_def example_skipped_resources_def)

lemma fmt_d_digit: "fmt_d 1 = ''1''" "fmt_d 2 = ''2''"
  by (simp_all add: fmt_d_def digits.simps)

text \<open>
  Claim C9, as the code has it. When the merged summary has no unsupported counts, or
  has them for no resource type, the message is empty. When it has them for at least one
  resource type, the message is the number of unsupported resource types, the singular
  phrase for exactly one type and the plural phrase for more, the hint to rerun with
  the show-skipped flag when that flag is not set, a full stop, and on a new line the
  call to action; when the flag is set, one line follows for each resource type the loop
  visits, with its count and its name. The map of a Go program is finite and has fewer
  than \<open>2 ^ 63\<close> keys.
\<close>

theorem C9_unsupportedResourcesMessage:
  "(UnsupportedResourceCounts (MergedSummary r) = None \<longrightarrow>
      unsupportedResourcesMessage r showSkipped visited = [])
   \<and> (\<forall>counts. UnsupportedResourceCounts (MergedSummary r) = Some counts
         \<and> finite (dom counts) \<and> card (dom counts) < 2 ^ 63 \<longrightarrow>
       unsupportedResourcesMessage r showSkipped visited =
         (if dom counts = {} then []
          else fmt_d (int (card (dom counts))) @ '' ''
            @ (if card (dom counts) = 1
               then ''resource type wasn't estimated as it's not supported yet''
               else ''resource types weren't estimated as they're not supported yet'')
            @ (if showSkipped then [] else '', rerun with --show-skipped to see'')
            @ ''.'' @ [CHR 0x0A]
            @ ''Please watch/star https://github.com/infracost/infracost as new resources are added regularly.''
            @ (if showSkipped
               then concat (map (\<lambda>t. [CHR 0x0A] @ fmt_d (sint (index_int counts t))
                                      @ '' x '' @ t) visited)
               else [])))"
proof (intro conjI allI impI)
  assume "UnsupportedResourceCounts (MergedSummary r) = None"
  then show "unsupportedResourcesMessage r showSkipped visited = []"
    by (simp add: unsupportedResourcesMessage_def)
next
  fix counts
  assume a: "UnsupportedResourceCounts (MergedSummary r) = Some counts
         \<and> finite (dom counts) \<and> card (dom counts) < 2 ^ 63"
  then have fin: "finite (dom counts)" and bound: "card (dom counts) < 2 ^ 63" by simp_all
  note len = len_map_facts [OF fin bound]
  from a have counts: "UnsupportedResourceCounts (MergedSummary r) = Some counts" by simp
  show "unsupportedResourcesMessage r showSkipped visited =
         (if dom counts = {} then []
          else fmt_d (int (card (dom counts))) @ '' ''
            @ (if card (dom counts) = 1
               then ''resource type wasn't estimated as it's not supported yet''
               else ''resource types weren't estimated as they're not supported yet'')
            @ (if showSkipped then [] else '', rerun with --show-skipped to see'')
            @ ''.'' @ [CHR 0x0A]
            @ ''Please watch/star https://github.com/infracost/infracost as new resources are added regularly.''
            @ (if showSkipped
               then concat (map (\<lambda>t. [CHR 0x0A] @ fmt_d (sint (index_int counts t))
                                      @ '' x '' @ t) visited)
               else []))"
    unfolding unsupportedResourcesMessage_def Let_def counts option.case len fold_append_lines
    by (cases showSkipped; cases "dom counts = {}";
        simp only: if_True if_False append_assoc append_Nil2 refl)
qed

text \<open>
  The claim as worded fails for a report without unsupported resources: the function
  returns the empty string, which has neither the hint nor the call to action.
\<close>

theorem C9_no_unsupported_counterexample:
  "unsupportedResourcesMessage
     (ToOutputFormat insertionSort example_HasSupportedProvider 0
        [example_Project ''p''
           [example_schema_Resource ''aws_instance.web'' ''aws_instance'' False False
              (Some 1) (Some 730)]]) False [] = []
   \<and> unsupportedResourcesMessage
     (ToOutputFormat insertionSort example_HasSupportedProvider 0
        [example_Project ''p''
           [example_schema_Resource ''aws_instance.web'' ''aws_instance'' False False
              (Some 1) (Some 730)]]) True [] = []"
  unfolding unsupportedResourcesMessage_def Let_def example_unsupported_none
  by (simp add: len_map_def)

theorem C9_unsupportedResourcesMessage_witness:
  "UnsupportedResourceCounts
     (MergedSummary (ToOutputFormat insertionSort example_HasSupportedProvider 0
        [example_Project ''p'' example_skipped_resources]))
     = Some [''aws_new_thing'' \<mapsto> 2, ''google_new_thing'' \<mapsto> 1]
   \<and> finite (dom [''aws_new_thing'' \<mapsto> (2 :: go_int), ''google_new_thing'' \<mapsto> 1])
   \<and> card (dom [''aws_new_thing'' \<mapsto> (2 :: go_int), ''google_new_thing'' \<mapsto> 1]) < 2 ^ 63
   \<and> unsupportedResourcesMessage
       (ToOutputFormat insertionSort example_HasSupportedProvider 0
          [example_Project ''p'' example_skipped_resources])
       True [''google_new_thing'', ''aws_new_thing'']
     = ''2 resource types weren't estimated as they're not supported yet.'' @ [CHR 0x0A]
       @ ''Please watch/star https://github.com/infracost/infracost as new resources are added regularly.''
       @ [CHR 0x0A] @ ''1 x google_new_thing'' @ [CHR 0x0A] @ ''2 x aws_new_thing''
   \<and> unsupportedResourcesMessage
       (ToOutputFormat insertionSort example_HasSupportedProvider 0
          [example_Project ''p'' example_skipped_resources])
       False [''google_new_thing'', ''aws_new_thing'']
     = ''2 resource types weren't estimated as they're not supported yet, rerun with --show-skipped to see.''
       @ [CHR 0x0A]
       @ ''Please watch/star https://github.com/infracost/infracost as new resources are added regularly.''"
proof -
  let ?R = "ToOutputFormat insertionSort example_HasSupportedProvider 0
          [example_Project ''p'' example_skipped_resources]"
  let ?counts = "[''aws_new_thing'' \<mapsto> (2 :: go_int), ''google_new_thing'' \<mapsto> 1]"
  let ?visited = "[''google_new_thing'', ''aws_new_thing'']"
  note shown = C9_unsupportedResourcesMessage [of ?R True ?visited]
  note hidden = C9_unsupportedResourcesMessage [of ?R False ?visited]
  have fin: "finite (dom ?counts)" by simp
  have card: "card (dom ?counts) = 2" by simp
  then have bound: "card (dom ?counts) < 2 ^ 63" by simp
  have nonempty: "dom ?counts \<noteq> {}" by simp
  from shown example_unsupported_two fin bound
  have "unsupportedResourcesMessage ?R True ?visited =
         (if dom ?counts = {} then []
          else fmt_d (int (card (dom ?counts))) @ '' ''
            @ (if card (dom ?counts) = 1
               then ''resource type wasn't estimated as it's not supported yet''
               else ''resource types weren't estimated as they're not supported yet'')
            @ (if True then [] else '', rerun with --show-skipped to see'')
            @ ''.'' @ [CHR 0x0A]
            @ ''Please watch/star https://github.com/infracost/infracost as new resources are added regularly.''
            @ (if True
               then concat (map (\<lambda>t. [CHR 0x0A] @ fmt_d (sint (index_int ?counts t))
                                      @ '' x '' @ t) ?visited)
               else []))"
    by blast
  then have m1: "unsupportedResourcesMessage ?R True ?visited
     = ''2 resource types weren't estimated as they're not supported yet.'' @ [CHR 0x0A]
       @ ''Please watch/star https://github.com/infracost/infracost as new resources are added regularly.''
       @ [CHR 0x0A] @ ''1 x google_new_thing'' @ [CHR 0x0A] @ ''2 x aws_new_thing''"
    unfolding card by (simp add: nonempty fmt_d_digit index_int_def)
  from hidden example_unsupported_two fin bound
  have "unsupportedResourcesMessage ?R False ?visited =
         (if dom ?counts = {} then []
          else fmt_d (int (card (dom ?counts))) @ '' ''
            @ (if card (dom ?counts) = 1
               then ''resource type wasn't estimated as it's not supported yet''
               else ''resource types weren't estimated as they're not supported yet'')
            @ (if False then [] else '', rerun with --show-skipped to see'')
            @ ''.'' @ [CHR 0x0A]
            @ ''Please watch/star https://github.com/infracost/infracost as new resources are added regularly.''
            @ (if False
               then concat (map (\<lambda>t. [CHR 0x0A] @ fmt_d (sint (index_int ?counts t))
                                      @ '' x '' @ t) ?visited)
               else []))"
    by blast
  then have m2: "unsupportedResourcesMessage ?R False ?visited
     = ''2 resource types weren't estimated as they're not supported yet, rerun with --show-skipped to see.''
       @ [CHR 0x0A]
       @ ''Please watch/star https://github.com/infracost/infracost as new resources are added regularly.''"
    unfolding card by (simp add: nonempty fmt_d_digit)
  from example_unsupported_two fin bound m1 m2 show ?thesis by (intro conjI)
qed

end
